theory Spec2Isabelle
  imports Main "HOL-Library.Sublist" "HOL-Library.Product_Lexorder" "HOL-Library.Word"
begin

section \<open>Data model (app/models.py)\<close>

text \<open>
  The enumerations of models.py. Each member is a \<open>str\<close>-mixin enum member; \<open>str()\<close> of a
  member is the qualified member name, \<open>.value\<close> its lower-case string.
\<close>

datatype UserRole = ADMIN | MANAGER | MEMBER

datatype TaskStatus = TODO | IN_PROGRESS | IN_REVIEW | COMPLETED | BLOCKED

datatype TaskPriority = LOW | MEDIUM | HIGH | CRITICAL

text \<open>
  A \<open>date\<close> is (year, month, day) and a \<open>datetime\<close> is a date with the microsecond of the
  day; both are compared lexicographically, as Python and SQL compare them.
\<close>

type_synonym date = "nat \<times> nat \<times> nat"

type_synonym datetime = "date \<times> nat"

text \<open>
  A primary or foreign key is an \<open>Integer\<close> column: a 64-bit word of the store, read as a
  signed integer (\<open>sint\<close>).
  An id of a request is a Python \<open>int\<close>, which has no bound.
\<close>

type_synonym key = "64 word"

text \<open>
  Rows of the tables. The association rows of a task (tables \<open>task_assignees\<close> and
  \<open>task_tags\<close>, which have no uniqueness constraint) are held with its row, as the lists
  \<open>assignees\<close> and \<open>tags\<close> of the referenced keys, one entry per association row. On an
  object of the session the same fields are its relationship collections. Columns that no
  operation of routers/tasks.py reads (e-mail, password hash, \<open>updated_at\<close>, the creation
  timestamps of tags, dependencies and history rows) are left out.
\<close>

record User =
  user_id :: key
  username :: string
  user_role :: UserRole

record Tag =
  tag_id :: key
  tag_name :: string

record Task =
  task_id :: key
  title :: string
  description :: "string option"
  status :: TaskStatus
  priority :: TaskPriority
  due_date :: "date option"
  creator_id :: key
  parent_task_id :: "key option"
  created_at :: datetime
  completed_at :: "datetime option"
  assignees :: "key list"
  tags :: "key list"

record TaskDependency =
  dependency_id :: key
  blocking_task_id :: key
  blocked_task_id :: key

record TaskHistory =
  history_id :: key
  history_task_id :: key
  history_user_id :: key
  action :: string
  field_name :: "string option"
  old_value :: "string option"
  new_value :: "string option"

text \<open>The committed content of the relational store, one list of rows per table.\<close>

record database =
  users :: "User list"
  tasks :: "Task list"
  tag_rows :: "Tag list"
  task_dependencies :: "TaskDependency list"
  task_history :: "TaskHistory list"

text \<open>
  What an endpoint raises. \<open>HTTPException\<close> carries the status code and the detail of the
  source; \<open>RequestValidationError\<close> is a schema validator's \<open>ValueError\<close>; \<open>IntegrityError\<close>
  is a NOT NULL violation at flush; \<open>OperationalError\<close> is the store failing at a commit;
  \<open>OverflowError\<close> is the driver refusing to bind a Python \<open>int\<close> that is outside the range
  of the store's integers; \<open>StaleDataError\<close> is the session finding, at a flush, that
  the removal of an entity from a collection matches another number of association rows
  than one.
\<close>

datatype error =
  HTTPException nat string
| RequestValidationError string
| IntegrityError
| OperationalError
| OverflowError
| StaleDataError

section \<open>Strings\<close>

definition lower_char :: "char \<Rightarrow> char" where
  "lower_char c =
     (case map_of (zip ''ABCDEFGHIJKLMNOPQRSTUVWXYZ'' ''abcdefghijklmnopqrstuvwxyz'') c of
        Some d \<Rightarrow> d
      | None \<Rightarrow> c)"

text \<open>
  A string is the list of the bytes of its UTF-8 encoding. \<open>str_lower\<close> is SQL \<open>lower()\<close>,
  which changes the ASCII letters only, and is \<open>str.lower()\<close> on ASCII text.
\<close>

definition str_lower :: "string \<Rightarrow> string" where
  "str_lower s = map lower_char s"


definition digit_char :: "nat \<Rightarrow> char" where
  "digit_char n = ''0123456789'' ! (n mod 10)"

function str_nat :: "nat \<Rightarrow> string" where
  "str_nat n = (if n < 10 then [digit_char n] else str_nat (n div 10) @ [digit_char n])"
  by pat_completeness auto
termination
  by (relation "measure id") auto

declare str_nat.simps [simp del]

text \<open>\<open>str(i)\<close> of a Python int.\<close>

definition str_int :: "int \<Rightarrow> string" where
  "str_int i = (if i < 0 then CHR ''-'' # str_nat (nat (- i)) else str_nat (nat i))"

text \<open>\<open>sep.join(xs)\<close>.\<close>

fun join :: "string \<Rightarrow> string list \<Rightarrow> string" where
  "join sep [] = []"
| "join sep [x] = x"
| "join sep (x # y # ys) = x @ sep @ join sep (y # ys)"

definition str_status :: "TaskStatus \<Rightarrow> string" where
  "str_status s =
     (case s of TODO \<Rightarrow> ''TaskStatus.TODO'' | IN_PROGRESS \<Rightarrow> ''TaskStatus.IN_PROGRESS''
      | IN_REVIEW \<Rightarrow> ''TaskStatus.IN_REVIEW'' | COMPLETED \<Rightarrow> ''TaskStatus.COMPLETED''
      | BLOCKED \<Rightarrow> ''TaskStatus.BLOCKED'')"

definition status_value :: "TaskStatus \<Rightarrow> string" where
  "status_value s =
     (case s of TODO \<Rightarrow> ''todo'' | IN_PROGRESS \<Rightarrow> ''in_progress''
      | IN_REVIEW \<Rightarrow> ''in_review'' | COMPLETED \<Rightarrow> ''completed'' | BLOCKED \<Rightarrow> ''blocked'')"

definition str_priority :: "TaskPriority \<Rightarrow> string" where
  "str_priority p =
     (case p of LOW \<Rightarrow> ''TaskPriority.LOW'' | MEDIUM \<Rightarrow> ''TaskPriority.MEDIUM''
      | HIGH \<Rightarrow> ''TaskPriority.HIGH'' | CRITICAL \<Rightarrow> ''TaskPriority.CRITICAL'')"

definition priority_value :: "TaskPriority \<Rightarrow> string" where
  "priority_value p =
     (case p of LOW \<Rightarrow> ''low'' | MEDIUM \<Rightarrow> ''medium'' | HIGH \<Rightarrow> ''high''
      | CRITICAL \<Rightarrow> ''critical'')"

definition zero_pad :: "nat \<Rightarrow> string \<Rightarrow> string" where
  "zero_pad w s = replicate (w - length s) CHR ''0'' @ s"

text \<open>\<open>str(d)\<close> of a date: ISO format, \<open>YYYY-MM-DD\<close>.\<close>

definition str_date :: "date \<Rightarrow> string" where
  "str_date d =
     (case d of (y, m, dd) \<Rightarrow>
        zero_pad 4 (str_nat y) @ ''-'' @ zero_pad 2 (str_nat m) @ ''-'' @ zero_pad 2 (str_nat dd))"

section \<open>The session: queries and pending writes\<close>

text \<open>
  The Python ints that the driver binds as a parameter of a query: those of the signed
  64-bit range. Executing a query with any other int raises \<open>OverflowError\<close>.
\<close>

definition int64 :: "int \<Rightarrow> bool" where
  "int64 i = (- (2 ^ 63) \<le> i \<and> i < 2 ^ 63)"

text \<open>
  Primary keys are assigned by the store when a row is flushed: one more than the largest
  key of the table (in the arithmetic of the store's integers).
\<close>

definition next_id :: "key list \<Rightarrow> key" where
  "next_id ids = word_of_int (fold max (map sint ids) 0 + 1)"

text \<open>
  \<open>db.query(Task).filter(Task.id == i).first()\<close>, for an \<open>i\<close> that the driver binds: the
  first row whose key is the integer \<open>i\<close>.
\<close>

definition get_task_row :: "database \<Rightarrow> int \<Rightarrow> Task option" where
  "get_task_row db i = find (\<lambda>t. sint (task_id t) = i) (tasks db)"

text \<open>
  \<open>db.query(User).filter(User.id.in_(ids)).all()\<close>, for ids that the driver binds: each
  matching row once, in table order.
\<close>

definition users_in :: "database \<Rightarrow> int list \<Rightarrow> User list" where
  "users_in db ids = filter (\<lambda>u. sint (user_id u) \<in> set ids) (users db)"

text \<open>
  Loading a \<open>Task\<close> object from its row (a query, \<open>db.refresh\<close>): a relationship
  collection holds every related entity once, in the order of the association rows,
  whatever number of rows names it.
\<close>

definition load_collection :: "key list \<Rightarrow> key list" where
  "load_collection rows = rev (remdups (rev rows))"

definition refresh :: "Task \<Rightarrow> Task" where
  "refresh t = t\<lparr>assignees := load_collection (assignees t), tags := load_collection (tags t)\<rparr>"

text \<open>
  Flushing a collection \<open>current\<close> of an object whose association rows are \<open>rows\<close>. An
  entity of the loaded collection that is no longer in \<open>current\<close> is deleted, which
  must match one row; the rows of the entities that stay are kept; every occurrence in
  \<open>current\<close> of an entity that was not in the loaded collection is inserted as a row.
\<close>

definition flush_collection :: "key list \<Rightarrow> key list \<Rightarrow> key list option" where
  "flush_collection rows current =
     (if list_ex (\<lambda>d. d \<notin> set current \<and> count_list rows d \<noteq> 1) (load_collection rows)
      then None
      else Some (filter (\<lambda>r. r \<in> set current) rows @ filter (\<lambda>c. c \<notin> set rows) current))"

text \<open>
  A mutated \<open>Task\<close> object of the session, loaded from \<open>row\<close>, replaces its row at the
  flush: the columns as set on the object, the association rows as flushed. \<open>None\<close> is
  the flush raising \<open>StaleDataError\<close>.
\<close>

definition flush_task :: "Task \<Rightarrow> Task \<Rightarrow> Task option" where
  "flush_task row obj =
     (case flush_collection (assignees row) (assignees obj) of
        None \<Rightarrow> None
      | Some a \<Rightarrow>
          (case flush_collection (tags row) (tags obj) of
             None \<Rightarrow> None
           | Some g \<Rightarrow> Some (obj\<lparr>assignees := a, tags := g\<rparr>)))"

definition put_task :: "Task \<Rightarrow> Task \<Rightarrow> database \<Rightarrow> (Task \<times> database) option" where
  "put_task row obj db =
     (case flush_task row obj of
        None \<Rightarrow> None
      | Some new \<Rightarrow>
          Some (new, db\<lparr>tasks := map (\<lambda>r. if task_id r = task_id obj then new else r)
                                   (tasks db)\<rparr>))"

text \<open>\<open>len(task.subtasks)\<close>: the backref of \<open>parent_task\<close>, the rows whose parent is this task.\<close>

definition subtask_count :: "database \<Rightarrow> Task \<Rightarrow> nat" where
  "subtask_count db t = length (filter (\<lambda>r. parent_task_id r = Some (task_id t)) (tasks db))"

section \<open>routers/tasks.py: helpers\<close>

definition log_task_history ::
  "database \<Rightarrow> key \<Rightarrow> key \<Rightarrow> string \<Rightarrow> string option \<Rightarrow> string option \<Rightarrow> string option
     \<Rightarrow> database" where
  "log_task_history db tid uid act fld old new =
     db\<lparr>task_history := task_history db @
        [\<lparr>history_id = next_id (map history_id (task_history db)),
          history_task_id = tid, history_user_id = uid, action = act,
          field_name = fld, old_value = old, new_value = new\<rparr>]\<rparr>"

definition get_or_create_tag :: "database \<Rightarrow> string \<Rightarrow> Tag \<times> database" where
  "get_or_create_tag db name =
     (case find (\<lambda>t. tag_name t = str_lower name) (tag_rows db) of
        Some tag \<Rightarrow> (tag, db)
      | None \<Rightarrow>
          (let tag = \<lparr>tag_id = next_id (map tag_id (tag_rows db)), tag_name = str_lower name\<rparr>
           in (tag, db\<lparr>tag_rows := tag_rows db @ [tag]\<rparr>)))"

text \<open>
  The loop \<open>for tag_name in names: tag = get_or_create_tag(db, tag_name);
  task.tags.append(tag)\<close>, on the collection \<open>acc\<close>.
\<close>

fun append_tags :: "database \<Rightarrow> key list \<Rightarrow> string list \<Rightarrow> key list \<times> database" where
  "append_tags db acc [] = (acc, db)"
| "append_tags db acc (n # ns) =
     (case get_or_create_tag db n of (tag, db') \<Rightarrow> append_tags db' (acc @ [tag_id tag]) ns)"

section \<open>Request schemas (app/schemas.py)\<close>

text \<open>
  A field of an update schema is \<open>None\<close> when the request does not set it
  (\<open>model_dump(exclude_unset=True)\<close> drops it), \<open>Some None\<close> when the request sets it to
  \<open>null\<close>, and \<open>Some (Some v)\<close> when it carries a value.
\<close>

record TaskBulkUpdate =
  bu_task_ids :: "int list"
  bu_status :: "TaskStatus option option"
  bu_priority :: "TaskPriority option option"
  bu_assignee_ids :: "int list option option"
  bu_tag_names :: "string list option option"

section \<open>routers/tasks.py: bulk update\<close>

text \<open>
  The body of the inner loop of \<open>bulk_update_tasks\<close>, one definition per field of
  \<open>update_data\<close>, on the task object and the pending state of the session.
\<close>

definition bulk_status ::
  "datetime \<Rightarrow> key \<Rightarrow> TaskStatus option option \<Rightarrow> Task \<times> database \<Rightarrow> Task \<times> database" where
  "bulk_status now uid fld s =
     (case s of (task, db) \<Rightarrow>
        (case fld of
           Some (Some v) \<Rightarrow>
             if status task \<noteq> v then
               (let task1 = task\<lparr>status := v\<rparr>;
                    db1 = log_task_history db (task_id task) uid ''bulk_updated'' (Some ''status'')
                            (Some (str_status (status task))) (Some (str_status v))
                in (if v = COMPLETED then task1\<lparr>completed_at := Some now\<rparr> else task1, db1))
             else (task, db)
         | _ \<Rightarrow> (task, db)))"

definition bulk_priority ::
  "key \<Rightarrow> TaskPriority option option \<Rightarrow> Task \<times> database \<Rightarrow> Task \<times> database" where
  "bulk_priority uid fld s =
     (case s of (task, db) \<Rightarrow>
        (case fld of
           Some (Some v) \<Rightarrow>
             if priority task \<noteq> v then
               (task\<lparr>priority := v\<rparr>,
                log_task_history db (task_id task) uid ''bulk_updated'' (Some ''priority'')
                  (Some (str_priority (priority task))) (Some (str_priority v)))
             else (task, db)
         | _ \<Rightarrow> (task, db)))"

text \<open>
  The \<open>assignee_ids\<close> branch runs a query on the users, which raises when an id cannot be
  bound. There is no check of the number of users found.
\<close>

definition bulk_assignees ::
  "key \<Rightarrow> int list option option \<Rightarrow> Task \<times> database \<Rightarrow> error + Task \<times> database" where
  "bulk_assignees uid fld s =
     (case s of (task, db) \<Rightarrow>
        (case fld of
           Some (Some ids) \<Rightarrow>
             if \<not> list_all int64 ids then Inl OverflowError
             else Inr (task\<lparr>assignees := map user_id (users_in db ids)\<rparr>,
                       log_task_history db (task_id task) uid ''bulk_updated''
                         (Some ''assignees'') None None)
         | _ \<Rightarrow> Inr (task, db)))"

definition bulk_tags ::
  "key \<Rightarrow> string list option option \<Rightarrow> Task \<times> database \<Rightarrow> Task \<times> database" where
  "bulk_tags uid fld s =
     (case s of (task, db) \<Rightarrow>
        (case fld of
           Some (Some names) \<Rightarrow>
             (case append_tags db [] names of (tgs, db1) \<Rightarrow>
                (task\<lparr>tags := tgs\<rparr>,
                 log_task_history db1 (task_id task) uid ''bulk_updated'' (Some ''tags'')
                   None None))
         | _ \<Rightarrow> (task, db)))"

text \<open>
  One iteration of \<open>for task in tasks\<close>, on the task object loaded from a row: the
  fields in the order of the schema, then the mutated object replaces its row. An
  exception ends the loop.
\<close>

definition bulk_update_one ::
  "datetime \<Rightarrow> key \<Rightarrow> TaskBulkUpdate \<Rightarrow> database \<Rightarrow> Task \<Rightarrow> error + database" where
  "bulk_update_one now uid upd db task =
     (case bulk_assignees uid (bu_assignee_ids upd)
             (bulk_priority uid (bu_priority upd)
               (bulk_status now uid (bu_status upd) (refresh task, db))) of
        Inl e \<Rightarrow> Inl e
      | Inr s \<Rightarrow>
          (case bulk_tags uid (bu_tag_names upd) s of
             (task', db') \<Rightarrow>
               (case put_task task task' db' of
                  None \<Rightarrow> Inl StaleDataError
                | Some (new, db'') \<Rightarrow> Inr db'')))"

fun bulk_loop ::
  "datetime \<Rightarrow> key \<Rightarrow> TaskBulkUpdate \<Rightarrow> database \<Rightarrow> Task list \<Rightarrow> error + database" where
  "bulk_loop now uid upd db [] = Inr db"
| "bulk_loop now uid upd db (task # rest) =
     (case bulk_update_one now uid upd db task of
        Inl e \<Rightarrow> Inl e
      | Inr db' \<Rightarrow> bulk_loop now uid upd db' rest)"

text \<open>
  \<open>bulk_update_tasks\<close>: the validated body (\<open>task_ids\<close> has at least one item); the query
  for the tasks whose id is in \<open>task_ids\<close>, which binds every id; the length check; the
  loop and the single commit. The result is the response (message count and echoed ids)
  or the error, with the committed store: a raise leaves the store as it was.
\<close>

definition bulk_update_tasks ::
  "datetime \<Rightarrow> User \<Rightarrow> TaskBulkUpdate \<Rightarrow> database \<Rightarrow> (error + nat \<times> int list) \<times> database" where
  "bulk_update_tasks now current_user upd db =
     (if bu_task_ids upd = [] then (Inl (RequestValidationError ''task_ids''), db)
      else if \<not> list_all int64 (bu_task_ids upd) then (Inl OverflowError, db)
      else
        (let ts = filter (\<lambda>t. sint (task_id t) \<in> set (bu_task_ids upd)) (tasks db) in
         if length ts \<noteq> length (bu_task_ids upd)
         then (Inl (HTTPException 400 ''One or more tasks not found''), db)
         else
           (case bulk_loop now (user_id current_user) upd db ts of
              Inl e \<Rightarrow> (Inl e, db)
            | Inr db' \<Rightarrow> (Inr (length ts, bu_task_ids upd), db'))))"

section \<open>routers/tasks.py: single update\<close>

record TaskUpdate =
  tu_title :: "string option option"
  tu_description :: "string option option"
  tu_status :: "TaskStatus option option"
  tu_priority :: "TaskPriority option option"
  tu_due_date :: "date option option"
  tu_assignee_ids :: "int list option option"
  tu_tag_names :: "string list option option"

text \<open>\<open>Field(None, min_length=1, max_length=500)\<close> on \<open>title\<close>: checked when a string is given.\<close>

definition TaskUpdate_valid :: "TaskUpdate \<Rightarrow> bool" where
  "TaskUpdate_valid upd =
     (case tu_title upd of
        Some (Some s) \<Rightarrow> 1 \<le> length s \<and> length s \<le> 500
      | _ \<Rightarrow> True)"

text \<open>\<open>str(x) if x else None\<close> on a string: the empty string is falsy.\<close>

definition str_if :: "string \<Rightarrow> string option" where
  "str_if s = (if s = [] then None else Some s)"

text \<open>\<open>[t.name for t in task.tags]\<close>.\<close>

definition tag_names_of :: "database \<Rightarrow> key list \<Rightarrow> string list" where
  "tag_names_of db ids =
     List.map_filter (\<lambda>i. map_option tag_name (find (\<lambda>t. tag_id t = i) (tag_rows db))) ids"

text \<open>
  The \<open>else\<close> branch of the loop of \<open>update_task\<close>, per scalar field. The state is the task
  object, the pending store and a flag: a NOT NULL column (\<open>title\<close>, \<open>status\<close>, \<open>priority\<close>)
  was set to \<open>None\<close>, which the store refuses when the session is flushed at the commit.
\<close>

definition upd_title ::
  "key \<Rightarrow> string option option \<Rightarrow> Task \<times> database \<times> bool \<Rightarrow> Task \<times> database \<times> bool" where
  "upd_title uid fld s =
     (case s of (task, db, bad) \<Rightarrow>
        (case fld of
           None \<Rightarrow> (task, db, bad)
         | Some None \<Rightarrow>
             (task, log_task_history db (task_id task) uid ''updated'' (Some ''title'')
                      (str_if (title task)) None, True)
         | Some (Some v) \<Rightarrow>
             if title task \<noteq> v then
               (task\<lparr>title := v\<rparr>,
                log_task_history db (task_id task) uid ''updated'' (Some ''title'')
                  (str_if (title task)) (str_if v), bad)
             else (task, db, bad)))"

definition upd_description ::
  "key \<Rightarrow> string option option \<Rightarrow> Task \<times> database \<times> bool \<Rightarrow> Task \<times> database \<times> bool" where
  "upd_description uid fld s =
     (case s of (task, db, bad) \<Rightarrow>
        (case fld of
           None \<Rightarrow> (task, db, bad)
         | Some v \<Rightarrow>
             if description task \<noteq> v then
               (task\<lparr>description := v\<rparr>,
                log_task_history db (task_id task) uid ''updated'' (Some ''description'')
                  (Option.bind (description task) str_if) (Option.bind v str_if), bad)
             else (task, db, bad)))"

definition upd_status ::
  "datetime \<Rightarrow> key \<Rightarrow> TaskStatus option option \<Rightarrow> Task \<times> database \<times> bool
     \<Rightarrow> Task \<times> database \<times> bool" where
  "upd_status now uid fld s =
     (case s of (task, db, bad) \<Rightarrow>
        (case fld of
           None \<Rightarrow> (task, db, bad)
         | Some None \<Rightarrow>
             (task, log_task_history db (task_id task) uid ''updated'' (Some ''status'')
                      (Some (str_status (status task))) None, True)
         | Some (Some v) \<Rightarrow>
             if status task \<noteq> v then
               (let task1 = task\<lparr>status := v\<rparr>;
                    db1 = log_task_history db (task_id task) uid ''updated'' (Some ''status'')
                            (Some (str_status (status task))) (Some (str_status v))
                in (if v = COMPLETED then task1\<lparr>completed_at := Some now\<rparr> else task1,
                    db1, bad))
             else (task, db, bad)))"

definition upd_priority ::
  "key \<Rightarrow> TaskPriority option option \<Rightarrow> Task \<times> database \<times> bool \<Rightarrow> Task \<times> database \<times> bool" where
  "upd_priority uid fld s =
     (case s of (task, db, bad) \<Rightarrow>
        (case fld of
           None \<Rightarrow> (task, db, bad)
         | Some None \<Rightarrow>
             (task, log_task_history db (task_id task) uid ''updated'' (Some ''priority'')
                      (Some (str_priority (priority task))) None, True)
         | Some (Some v) \<Rightarrow>
             if priority task \<noteq> v then
               (task\<lparr>priority := v\<rparr>,
                log_task_history db (task_id task) uid ''updated'' (Some ''priority'')
                  (Some (str_priority (priority task))) (Some (str_priority v)), bad)
             else (task, db, bad)))"

definition upd_due_date ::
  "key \<Rightarrow> date option option \<Rightarrow> Task \<times> database \<times> bool \<Rightarrow> Task \<times> database \<times> bool" where
  "upd_due_date uid fld s =
     (case s of (task, db, bad) \<Rightarrow>
        (case fld of
           None \<Rightarrow> (task, db, bad)
         | Some v \<Rightarrow>
             if due_date task \<noteq> v then
               (task\<lparr>due_date := v\<rparr>,
                log_task_history db (task_id task) uid ''updated'' (Some ''due_date'')
                  (map_option str_date (due_date task)) (map_option str_date v), bad)
             else (task, db, bad)))"

text \<open>
  The \<open>assignee_ids\<close> branch: the only place of the loop that raises, when an id cannot
  be bound in the query on the users or when a user is not found.
\<close>

definition upd_assignees ::
  "key \<Rightarrow> int list option option \<Rightarrow> Task \<times> database \<times> bool
     \<Rightarrow> error + Task \<times> database \<times> bool" where
  "upd_assignees uid fld s =
     (case s of (task, db, bad) \<Rightarrow>
        (case fld of
           Some (Some value) \<Rightarrow>
             if \<not> list_all int64 value then Inl OverflowError
             else
               (let old_assignees = map (str_int \<circ> sint) (assignees task);
                    found = users_in db value
                in if length found \<noteq> length value
                   then Inl (HTTPException 400 ''One or more assignees not found'')
                   else Inr (task\<lparr>assignees := map user_id found\<rparr>,
                             log_task_history db (task_id task) uid ''updated''
                               (Some ''assignees'')
                               (Some (join '','' old_assignees))
                               (Some (join '','' (map (str_int \<circ> sint \<circ> user_id) found))),
                             bad))
         | _ \<Rightarrow> Inr (task, db, bad)))"

definition upd_tags ::
  "key \<Rightarrow> string list option option \<Rightarrow> Task \<times> database \<times> bool \<Rightarrow> Task \<times> database \<times> bool" where
  "upd_tags uid fld s =
     (case s of (task, db, bad) \<Rightarrow>
        (case fld of
           Some (Some value) \<Rightarrow>
             (let old_tags = tag_names_of db (tags task) in
              case append_tags db [] value of (tgs, db1) \<Rightarrow>
                (task\<lparr>tags := tgs\<rparr>,
                 log_task_history db1 (task_id task) uid ''updated'' (Some ''tags'')
                   (Some (join '','' old_tags)) (Some (join '','' (tag_names_of db1 tgs))),
                 bad))
         | _ \<Rightarrow> (task, db, bad)))"

text \<open>
  \<open>update_task\<close>: the query for the task, which binds the id of the path; the fields of
  \<open>update_data\<close> in the order of the schema; the commit and the refresh. A raise leaves
  the store as it was committed before the request.
\<close>

definition update_task ::
  "datetime \<Rightarrow> User \<Rightarrow> int \<Rightarrow> TaskUpdate \<Rightarrow> database \<Rightarrow> (error + Task \<times> nat) \<times> database" where
  "update_task now current_user tid upd db =
     (if \<not> TaskUpdate_valid upd then (Inl (RequestValidationError ''title''), db)
      else if \<not> int64 tid then (Inl OverflowError, db)
      else
        (case get_task_row db tid of
           None \<Rightarrow> (Inl (HTTPException 404 ''Task not found''), db)
         | Some row \<Rightarrow>
             (let uid = user_id current_user;
                  db_task = refresh row;
                  s5 = upd_due_date uid (tu_due_date upd)
                         (upd_priority uid (tu_priority upd)
                           (upd_status now uid (tu_status upd)
                             (upd_description uid (tu_description upd)
                               (upd_title uid (tu_title upd) (db_task, db, False)))))
              in case upd_assignees uid (tu_assignee_ids upd) s5 of
                   Inl e \<Rightarrow> (Inl e, db)
                 | Inr s6 \<Rightarrow>
                     (case upd_tags uid (tu_tag_names upd) s6 of
                        (task', db', bad) \<Rightarrow>
                          if bad then (Inl IntegrityError, db)
                          else
                            (case put_task row task' db' of
                               None \<Rightarrow> (Inl StaleDataError, db)
                             | Some (new, db'') \<Rightarrow>
                                 (Inr (refresh new, subtask_count db'' new), db''))))))"

section \<open>routers/tasks.py: dependencies\<close>

text \<open>
  \<open>create_task_dependency\<close>: \<open>tid\<close> is the blocked task of the path, \<open>blocking\<close> the
  \<open>blocking_task_id\<close> of the body. The two queries for the tasks run first and bind the
  two ids.
\<close>

definition create_task_dependency ::
  "User \<Rightarrow> int \<Rightarrow> int \<Rightarrow> database \<Rightarrow> (error + TaskDependency) \<times> database" where
  "create_task_dependency current_user tid blocking db =
     (if \<not> int64 blocking \<or> \<not> int64 tid then (Inl OverflowError, db)
      else if get_task_row db blocking = None \<or> get_task_row db tid = None
      then (Inl (HTTPException 404 ''One or both tasks not found''), db)
      else if blocking = tid
      then (Inl (HTTPException 400 ''A task cannot depend on itself''), db)
      else if find (\<lambda>d. sint (blocking_task_id d) = blocking \<and> sint (blocked_task_id d) = tid)
                (task_dependencies db) \<noteq> None
      then (Inl (HTTPException 400 ''Dependency already exists''), db)
      else
        (let db_dependency =
               \<lparr>dependency_id = next_id (map dependency_id (task_dependencies db)),
                blocking_task_id = word_of_int blocking, blocked_task_id = word_of_int tid\<rparr>;
             db1 = db\<lparr>task_dependencies := task_dependencies db @ [db_dependency]\<rparr>;
             db2 = log_task_history db1 (word_of_int tid) (user_id current_user)
                     ''dependency_added'' (Some ''blocking_task'') None
                     (Some (str_int blocking))
         in (Inr db_dependency, db2)))"

section \<open>routers/tasks.py: creation\<close>

record TaskCreate =
  tc_title :: string
  tc_description :: "string option"
  tc_status :: TaskStatus
  tc_priority :: TaskPriority
  tc_due_date :: "date option"
  tc_assignee_ids :: "int list option"
  tc_tag_names :: "string list option"
  tc_parent_task_id :: "int option"

text \<open>The validator of \<open>parent_task_id\<close>, in both \<open>TaskCreate\<close> and \<open>TaskFilter\<close>.\<close>

definition validate_parent_task_id :: "int option \<Rightarrow> int option" where
  "validate_parent_task_id v = (if v = Some 0 then None else v)"

definition TaskCreate_validate :: "TaskCreate \<Rightarrow> error + TaskCreate" where
  "TaskCreate_validate task =
     (if 1 \<le> length (tc_title task) \<and> length (tc_title task) \<le> 500
      then Inr (task\<lparr>tc_parent_task_id := validate_parent_task_id (tc_parent_task_id task)\<rparr>)
      else Inl (RequestValidationError ''title''))"

text \<open>
  \<open>json.dumps\<close> of the \<open>initial_state\<close> dictionary, for ASCII text: strings between
  double quotes with the quote, the backslash and the control characters escaped, \<open>None\<close>
  as \<open>null\<close>, lists between brackets, the default separators.
\<close>

definition hex_char :: "nat \<Rightarrow> char" where
  "hex_char n = ''0123456789abcdef'' ! (n mod 16)"

definition dumps_char :: "char \<Rightarrow> string" where
  "dumps_char c =
     (if c = CHR 0x22 then [CHR 0x5C, CHR 0x22]
      else if c = CHR 0x5C then [CHR 0x5C, CHR 0x5C]
      else if c = CHR 0x0A then [CHR 0x5C, CHR ''n'']
      else if c = CHR 0x0D then [CHR 0x5C, CHR ''r'']
      else if c = CHR 0x09 then [CHR 0x5C, CHR ''t'']
      else if c = CHR 0x08 then [CHR 0x5C, CHR ''b'']
      else if c = CHR 0x0C then [CHR 0x5C, CHR ''f'']
      else if of_char c < (32 :: nat)
      then [CHR 0x5C, CHR ''u'', CHR ''0'', CHR ''0'',
            hex_char (of_char c div 16), hex_char (of_char c)]
      else [c])"

definition dumps_str :: "string \<Rightarrow> string" where
  "dumps_str s = CHR 0x22 # concat (map dumps_char s) @ [CHR 0x22]"

definition dumps_list :: "string list \<Rightarrow> string" where
  "dumps_list xs = ''['' @ join '', '' (map dumps_str xs) @ '']''"

definition dumps_initial_state ::
  "string \<Rightarrow> string \<Rightarrow> string \<Rightarrow> string option \<Rightarrow> string list \<Rightarrow> string list \<Rightarrow> string" where
  "dumps_initial_state ttl st pr due usernames tagnames =
     ''{'' @ dumps_str ''title'' @ '': '' @ dumps_str ttl @ '', ''
       @ dumps_str ''status'' @ '': '' @ dumps_str st @ '', ''
       @ dumps_str ''priority'' @ '': '' @ dumps_str pr @ '', ''
       @ dumps_str ''due_date'' @ '': ''
       @ (case due of None \<Rightarrow> ''null'' | Some d \<Rightarrow> dumps_str d) @ '', ''
       @ dumps_str ''assignees'' @ '': '' @ dumps_list usernames @ '', ''
       @ dumps_str ''tags'' @ '': '' @ dumps_list tagnames @ ''}''"

text \<open>\<open>[u.username for u in task.assignees]\<close>.\<close>

definition usernames_of :: "database \<Rightarrow> key list \<Rightarrow> string list" where
  "usernames_of db ids =
     List.map_filter (\<lambda>i. map_option username (find (\<lambda>u. user_id u = i) (users db))) ids"

text \<open>
  The store can fail at a commit; \<open>create_task\<close> commits twice, so the request names the
  commit at which it fails, if any.
\<close>

datatype fault = AtFirstCommit | AtSecondCommit

text \<open>
  \<open>create_task\<close>. The validated body; the parent check and the assignees, whose queries
  bind the ids of the body; the tags; the first
  commit, which inserts the task row (new key, \<open>created_at\<close> by default the current time)
  and one association row for each entry of the collections; the refresh; the history record; the second commit. The second component is the store as
  committed when the request ends: a raise discards only what was not yet committed.
\<close>

definition create_task ::
  "fault option \<Rightarrow> datetime \<Rightarrow> User \<Rightarrow> TaskCreate \<Rightarrow> database
     \<Rightarrow> (error + Task \<times> nat) \<times> database" where
  "create_task flt now current_user body db =
     (case TaskCreate_validate body of
        Inl e \<Rightarrow> (Inl e, db)
      | Inr task \<Rightarrow>
          if (case tc_parent_task_id task of
                None \<Rightarrow> False
              | Some p \<Rightarrow> p \<noteq> 0 \<and> \<not> int64 p)
          then (Inl OverflowError, db)
          else if (case tc_parent_task_id task of
                None \<Rightarrow> False
              | Some p \<Rightarrow> p \<noteq> 0 \<and> get_task_row db p = None)
          then (Inl (HTTPException 404 ''Parent task not found''), db)
          else
            (let ids = (case tc_assignee_ids task of None \<Rightarrow> [] | Some xs \<Rightarrow> xs);
                 found = users_in db ids
             in if \<not> list_all int64 ids then (Inl OverflowError, db)
                else if ids \<noteq> [] \<and> length found \<noteq> length ids
                then (Inl (HTTPException 400 ''One or more assignees not found''), db)
                else
                  (case append_tags db []
                          (case tc_tag_names task of None \<Rightarrow> [] | Some ns \<Rightarrow> ns) of
                     (tgs, db0) \<Rightarrow>
                       if flt = Some AtFirstCommit then (Inl OperationalError, db)
                       else
                         (let row =
                                \<lparr>task_id = next_id (map task_id (tasks db0)),
                                 title = tc_title task,
                                 description = tc_description task,
                                 status = tc_status task,
                                 priority = tc_priority task,
                                 due_date = tc_due_date task,
                                 creator_id = user_id current_user,
                                 parent_task_id = map_option word_of_int (tc_parent_task_id task),
                                 created_at = now,
                                 completed_at = None,
                                 assignees = (if ids \<noteq> [] then map user_id found else []),
                                 tags = tgs\<rparr>;
                              db1 = db0\<lparr>tasks := tasks db0 @ [row]\<rparr>;
                              db_task = refresh row;
                              initial_state = dumps_initial_state (title db_task)
                                  (status_value (status db_task))
                                  (priority_value (priority db_task))
                                  (map_option str_date (due_date db_task))
                                  (usernames_of db1 (assignees db_task))
                                  (tag_names_of db1 (tags db_task));
                              db2 = log_task_history db1 (task_id db_task)
                                      (user_id current_user) ''created''
                                      (Some ''initial_state'') None (Some initial_state)
                          in if flt = Some AtSecondCommit then (Inl OperationalError, db1)
                             else (Inr (db_task, subtask_count db2 db_task), db2)))))"


section \<open>routers/tasks.py: the filter\<close>

record TaskFilter =
  tf_status :: "TaskStatus list option"
  tf_priority :: "TaskPriority list option"
  tf_assignee_ids :: "int list option"
  tf_creator_ids :: "int list option"
  tf_tag_names :: "string list option"
  tf_due_date_from :: "date option"
  tf_due_date_to :: "date option"
  tf_created_from :: "date option"
  tf_created_to :: "date option"
  tf_search :: "string option"
  tf_is_overdue :: "bool option"
  tf_has_subtasks :: "bool option"
  tf_parent_task_id :: "int option"
  tf_logic_operator :: string

text \<open>The two field validators of \<open>TaskFilter\<close>.\<close>

definition TaskFilter_validate :: "TaskFilter \<Rightarrow> error + TaskFilter" where
  "TaskFilter_validate f =
     (if tf_logic_operator f \<noteq> ''AND'' \<and> tf_logic_operator f \<noteq> ''OR''
      then Inl (RequestValidationError ''logic_operator'')
      else Inr (f\<lparr>tf_parent_task_id := validate_parent_task_id (tf_parent_task_id f)\<rparr>))"

text \<open>
  SQL \<open>LIKE\<close>: in the pattern \<open>%\<close> stands for any run of characters and \<open>_\<close> for any one
  character; no escape character is set.
\<close>

fun like_match :: "string \<Rightarrow> string \<Rightarrow> bool" where
  "like_match [] s = (s = [])"
| "like_match (p # ps) [] = (p = CHR ''%'' \<and> like_match ps [])"
| "like_match (p # ps) (c # cs) =
     (if p = CHR ''%'' then like_match ps (c # cs) \<or> like_match (p # ps) cs
      else (p = CHR ''_'' \<or> p = c) \<and> like_match ps cs)"

text \<open>\<open>column.ilike(pattern)\<close>: \<open>lower(column) LIKE lower(pattern)\<close>.\<close>

definition ilike :: "string \<Rightarrow> string \<Rightarrow> bool" where
  "ilike subject pattern = like_match (str_lower pattern) (str_lower subject)"

text \<open>
  \<open>if v: conditions.append(c)\<close> on an optional list (\<open>None\<close> and the empty list are falsy),
  and \<open>if v is not None\<close> (or \<open>if v\<close> on an optional date, which is never falsy).
\<close>

definition when_list :: "'a list option \<Rightarrow> ('a list \<Rightarrow> 'b) \<Rightarrow> 'b list" where
  "when_list v c = (case v of Some xs \<Rightarrow> if xs \<noteq> [] then [c xs] else [] | None \<Rightarrow> [])"

definition when_given :: "'a option \<Rightarrow> ('a \<Rightarrow> 'b) \<Rightarrow> 'b list" where
  "when_given v c = (case v of Some x \<Rightarrow> [c x] | None \<Rightarrow> [])"

text \<open>
  The search condition: \<open>or_(Task.title.ilike(pattern), Task.description.ilike(pattern))\<close>
  with the pattern \<open>%search%\<close>.
\<close>

definition search_condition :: "string \<Rightarrow> Task \<Rightarrow> bool" where
  "search_condition search t =
     (ilike (title t) (''%'' @ search @ ''%'')
      \<or> (case description t of
            Some d \<Rightarrow> ilike d (''%'' @ search @ ''%'')
          | None \<Rightarrow> False))"

text \<open>
  The list \<open>conditions\<close> of \<open>filter_tasks\<close>, each condition as its truth on a row. A
  comparison with a NULL column is not true, so it excludes the row.
\<close>

definition conditions :: "database \<Rightarrow> date \<Rightarrow> TaskFilter \<Rightarrow> (Task \<Rightarrow> bool) list" where
  "conditions db today filters =
     when_list (tf_status filters) (\<lambda>ss t. status t \<in> set ss)
   @ when_list (tf_priority filters) (\<lambda>ps t. priority t \<in> set ps)
   @ when_list (tf_creator_ids filters) (\<lambda>ids t. sint (creator_id t) \<in> set ids)
   @ when_list (tf_assignee_ids filters)
       (\<lambda>ids t. list_ex (\<lambda>u. sint u \<in> set ids) (assignees t))
   @ when_list (tf_tag_names filters)
       (\<lambda>names t. list_ex (\<lambda>n. n \<in> set (map str_lower names)) (tag_names_of db (tags t)))
   @ when_given (tf_due_date_from filters)
       (\<lambda>d t. case due_date t of Some due \<Rightarrow> d \<le> due | None \<Rightarrow> False)
   @ when_given (tf_due_date_to filters)
       (\<lambda>d t. case due_date t of Some due \<Rightarrow> due \<le> d | None \<Rightarrow> False)
   @ when_given (tf_created_from filters) (\<lambda>d t. (d, 0) \<le> created_at t)
   @ when_given (tf_created_to filters) (\<lambda>d t. created_at t \<le> (d, 86399999999))
   @ when_list (tf_search filters) search_condition
   @ (if tf_is_overdue filters = Some True
      then [\<lambda>t. (case due_date t of Some due \<Rightarrow> due < today | None \<Rightarrow> False)
                 \<and> status t \<noteq> COMPLETED]
      else [])
   @ when_given (tf_has_subtasks filters)
       (\<lambda>b t. if b
               then task_id t \<in> set (map task_id
                      (filter (\<lambda>r. parent_task_id r \<noteq> None) (tasks db)))
               else parent_task_id t = None)
   @ when_given (tf_parent_task_id filters)
       (\<lambda>p t. map_option sint (parent_task_id t) = Some p)"

text \<open>
  The ints that the query of \<open>filter_tasks\<close> binds: the ids of the conditions that were
  appended, \<open>skip\<close> and \<open>limit\<close>.
\<close>

definition filter_binds :: "TaskFilter \<Rightarrow> int \<Rightarrow> int \<Rightarrow> int list" where
  "filter_binds filters skip limit =
     concat (when_list (tf_creator_ids filters) id)
   @ concat (when_list (tf_assignee_ids filters) id)
   @ when_given (tf_parent_task_id filters) id
   @ [skip, limit]"

text \<open>
  \<open>query.offset(skip).limit(limit)\<close>: the store reads a negative offset as none and a
  negative limit as no limit.
\<close>

definition paginate :: "int \<Rightarrow> int \<Rightarrow> 'a list \<Rightarrow> 'a list" where
  "paginate skip limit xs =
     (if limit < 0 then drop (nat skip) xs else take (nat limit) (drop (nat skip) xs))"

text \<open>
  \<open>filter_tasks\<close>: the validated body, the conditions, \<open>and_\<close> or \<open>or_\<close> over them when
  there is one, \<open>offset\<close> and \<open>limit\<close>, the execution of the query, which binds its
  parameters and loads the task objects, and the subtask count of each returned task.
  \<open>today\<close> is \<open>date.today()\<close>.
\<close>

definition filter_tasks ::
  "database \<Rightarrow> date \<Rightarrow> TaskFilter \<Rightarrow> int \<Rightarrow> int \<Rightarrow> error + (Task \<times> nat) list" where
  "filter_tasks db today body skip limit =
     (case TaskFilter_validate body of
        Inl e \<Rightarrow> Inl e
      | Inr filters \<Rightarrow>
          (let conds = conditions db today filters;
               query = (if conds \<noteq> [] then
                          (if tf_logic_operator filters = ''AND''
                           then filter (\<lambda>t. list_all (\<lambda>c. c t) conds) (tasks db)
                           else filter (\<lambda>t. list_ex (\<lambda>c. c t) conds) (tasks db))
                        else tasks db)
           in if \<not> list_all int64 (filter_binds filters skip limit) then Inl OverflowError
              else Inr (map (\<lambda>t. (refresh t, subtask_count db t))
                         (paginate skip limit query))))"

section \<open>The specification's reading of the filter\<close>

text \<open>Substring test: \<open>n\<close> occurs in \<open>s\<close>.\<close>

fun contains :: "string \<Rightarrow> string \<Rightarrow> bool" where
  "contains [] n = (n = [])"
| "contains (c # cs) n = (prefix n (c # cs) \<or> contains cs n)"

text \<open>
  Free-text search as the specification words it: a case-insensitive substring match
  against the title or the description.
\<close>

definition spec_search :: "string \<Rightarrow> Task \<Rightarrow> bool" where
  "spec_search search t =
     (contains (str_lower (title t)) (str_lower search)
      \<or> (case description t of
            Some d \<Rightarrow> contains (str_lower d) (str_lower search)
          | None \<Rightarrow> False))"

text \<open>
  The supplied dimension-conditions of the specification: those of every dimension other
  than the search as the code builds them, and the search as \<open>spec_search\<close>.
\<close>

definition spec_conditions :: "database \<Rightarrow> date \<Rightarrow> TaskFilter \<Rightarrow> (Task \<Rightarrow> bool) list" where
  "spec_conditions db today f =
     conditions db today (f\<lparr>tf_search := None\<rparr>) @ when_list (tf_search f) spec_search"

text \<open>
  One global operator folded over the supplied conditions; with none supplied every task
  is selected.
\<close>

definition spec_selects :: "string \<Rightarrow> (Task \<Rightarrow> bool) list \<Rightarrow> Task \<Rightarrow> bool" where
  "spec_selects op cs t =
     (cs = [] \<or> (if op = ''AND'' then (\<forall>c \<in> set cs. c t) else (\<exists>c \<in> set cs. c t)))"

text \<open>
  The characters with a meaning of their own in a \<open>LIKE\<close> pattern: the two wildcards, and
  the backslash, which some stores read as an escape.
\<close>

definition like_special :: "char \<Rightarrow> bool" where
  "like_special c = (c = CHR ''%'' \<or> c = CHR ''_'' \<or> c = CHR 0x5C)"


section \<open>Error kinds of the interface\<close>

text \<open>
  The interface maps the error kind \<open>NotFound\<close> to status 404; the three kinds below are
  the 400 responses of the source, told apart by their detail.
\<close>

definition NotFound :: "error \<Rightarrow> bool" where
  "NotFound e = (case e of HTTPException code detail \<Rightarrow> code = 404 | _ \<Rightarrow> False)"

definition InvalidAssignee :: error where
  "InvalidAssignee = HTTPException 400 ''One or more assignees not found''"

definition SelfDependency :: error where
  "SelfDependency = HTTPException 400 ''A task cannot depend on itself''"

definition DuplicateDependency :: error where
  "DuplicateDependency = HTTPException 400 ''Dependency already exists''"

section \<open>Well-formed stores and a sample store\<close>

text \<open>
  What the schema of models.py guarantees of every committed store: primary keys are
  unique, tag names are unique, and a history row references an existing task.
\<close>

definition wf_db :: "database \<Rightarrow> bool" where
  "wf_db db =
     (distinct (map task_id (tasks db))
      \<and> distinct (map tag_name (tag_rows db))
      \<and> list_all (\<lambda>h. history_task_id h \<in> set (map task_id (tasks db))) (task_history db))"

definition sample_user :: User where
  "sample_user = \<lparr>user_id = 1, username = ''alice'', user_role = MEMBER\<rparr>"

definition sample_task :: "key \<Rightarrow> string \<Rightarrow> key option \<Rightarrow> Task" where
  "sample_task i ttl parent =
     \<lparr>task_id = i, title = ttl, description = None, status = TODO, priority = MEDIUM,
      due_date = None, creator_id = 1, parent_task_id = parent,
      created_at = ((2024, 1, 1), 0), completed_at = None, assignees = [1], tags = []\<rparr>"

text \<open>Five tasks of one user; the second is a subtask of the first.\<close>

definition sample_db :: database where
  "sample_db =
     \<lparr>users = [sample_user],
      tasks = [sample_task 1 ''abc'' None, sample_task 2 ''child'' (Some 1),
               sample_task 3 ''three'' None, sample_task 4 ''four'' None,
               sample_task 5 ''five'' None],
      tag_rows = [], task_dependencies = [], task_history = []\<rparr>"

definition no_bulk_update :: "int list \<Rightarrow> TaskBulkUpdate" where
  "no_bulk_update ids =
     \<lparr>bu_task_ids = ids, bu_status = None, bu_priority = None, bu_assignee_ids = None,
      bu_tag_names = None\<rparr>"

definition no_update :: TaskUpdate where
  "no_update =
     \<lparr>tu_title = None, tu_description = None, tu_status = None, tu_priority = None,
      tu_due_date = None, tu_assignee_ids = None, tu_tag_names = None\<rparr>"

definition no_filter :: TaskFilter where
  "no_filter =
     \<lparr>tf_status = None, tf_priority = None, tf_assignee_ids = None, tf_creator_ids = None,
      tf_tag_names = None, tf_due_date_from = None, tf_due_date_to = None,
      tf_created_from = None, tf_created_to = None, tf_search = None, tf_is_overdue = None,
      tf_has_subtasks = None, tf_parent_task_id = None, tf_logic_operator = ''AND''\<rparr>"

definition sample_create :: "string list \<Rightarrow> TaskCreate" where
  "sample_create names =
     \<lparr>tc_title = ''new'', tc_description = None, tc_status = TODO, tc_priority = MEDIUM,
      tc_due_date = None, tc_assignee_ids = Some [], tc_tag_names = Some names,
      tc_parent_task_id = None\<rparr>"


section \<open>Auxiliary notions of the proofs\<close>

text \<open>
  What a step of the loop of \<open>update_task\<close> on a field other than \<open>status\<close> keeps: the
  key of the task object, the task rows of the pending store, and the completion time and
  the status of the object.
\<close>

definition keeps :: "Task \<times> database \<times> bool \<Rightarrow> Task \<times> database \<times> bool \<Rightarrow> bool" where
  "keeps s s' =
     (task_id (fst s') = task_id (fst s) \<and> tasks (fst (snd s')) = tasks (fst (snd s))
      \<and> completed_at (fst s') = completed_at (fst s) \<and> status (fst s') = status (fst s))"

text \<open>A store whose one task was completed on 1 May 2024.\<close>

definition completed_db :: database where
  "completed_db =
     sample_db\<lparr>tasks := [(sample_task 1 ''abc'' None)
        \<lparr>status := COMPLETED, completed_at := Some ((2024, 5, 1), 7)\<rparr>]\<rparr>"

lemmas sample_defs = sample_db_def sample_task_def sample_user_def no_filter_def
  no_bulk_update_def no_update_def

lemmas upd_defs = update_task_def TaskUpdate_valid_def get_task_row_def
  upd_title_def upd_description_def upd_status_def upd_priority_def upd_due_date_def
  upd_assignees_def upd_tags_def put_task_def flush_task_def flush_collection_def
  load_collection_def refresh_def users_in_def log_task_history_def subtask_count_def
  int64_def

section \<open>Bulk update: rejection of the whole batch\<close>

lemma int64_sint: "int64 (sint (k :: key))"
  using sint_ge[of k] sint_lt[of k] by (simp add: int64_def)

lemma sint_word_of_int64: "int64 i \<Longrightarrow> sint (word_of_int i :: key) = i"
  by (simp add: int64_def sint_sbintrunc' signed_take_bit_int_eq_self)

lemma sint_key_eq: "(sint (x :: key) = sint y) = (x = y)"
  by (auto intro: signed_word_eqI)

text \<open>
  With unique task keys, the query \<open>Task.id.in_(task_ids)\<close> returns as many rows as there
  are distinct ids of \<open>task_ids\<close> that name a task.
\<close>

lemma length_filter_ids:
  assumes "distinct (map task_id ts)"
  shows "length (filter (\<lambda>t. sint (task_id t) \<in> A) ts)
           = card ((\<lambda>t. sint (task_id t)) ` set ts \<inter> A)"
proof -
  let ?sel = "filter (\<lambda>t. sint (task_id t) \<in> A) ts"
  have "distinct (map task_id ?sel)"
    using assms by (simp add: distinct_map_filter)
  then have "distinct (map sint (map task_id ?sel))"
    by (simp only: distinct_map) (simp add: inj_on_def sint_key_eq)
  then have "distinct (map (\<lambda>t. sint (task_id t)) ?sel)"
    by (simp add: comp_def)
  then have "card (set (map (\<lambda>t. sint (task_id t)) ?sel))
      = length (map (\<lambda>t. sint (task_id t)) ?sel)"
    by (rule distinct_card)
  moreover have "set (map (\<lambda>t. sint (task_id t)) ?sel)
      = (\<lambda>t. sint (task_id t)) ` set ts \<inter> A"
    by auto
  ultimately show ?thesis by simp
qed

lemma bulk_update_length_mismatch:
  assumes "bu_task_ids upd \<noteq> []" and "list_all int64 (bu_task_ids upd)"
    and "length (filter (\<lambda>t. sint (task_id t) \<in> set (bu_task_ids upd)) (tasks db))
           \<noteq> length (bu_task_ids upd)"
  shows "bulk_update_tasks now u upd db
           = (Inl (HTTPException 400 ''One or more tasks not found''), db)"
  using assms by (simp add: bulk_update_tasks_def Let_def)

lemma bulk_update_unbound_id:
  assumes "bu_task_ids upd \<noteq> []" and "\<not> list_all int64 (bu_task_ids upd)"
  shows "bulk_update_tasks now u upd db = (Inl OverflowError, db)"
  using assms by (simp add: bulk_update_tasks_def)

text \<open>
  Claim C10. A bulk update whose \<open>task_ids\<close> holds the same id twice is rejected as a
  whole, with the store unchanged, even though every id names an existing task: the number
  of rows found is compared with the length of the list.
\<close>

theorem bulk_update_duplicate_ids_rejected:
  assumes pk: "distinct (map task_id (tasks db))"
    and dup: "\<not> distinct (bu_task_ids upd)"
    and ex: "set (bu_task_ids upd) \<subseteq> (\<lambda>t. sint (task_id t)) ` set (tasks db)"
  shows "bulk_update_tasks now u upd db
           = (Inl (HTTPException 400 ''One or more tasks not found''), db)"
proof (rule bulk_update_length_mismatch)
  let ?ids = "bu_task_ids upd"
  show "?ids \<noteq> []" using dup by auto
  show "list_all int64 ?ids"
    using ex int64_sint by (auto simp: list_all_iff)
  have "(\<lambda>t. sint (task_id t)) ` set (tasks db) \<inter> set ?ids = set ?ids"
    using ex by auto
  moreover have "card (set ?ids) \<noteq> length ?ids"
    using dup card_distinct by blast
  ultimately show "length (filter (\<lambda>t. sint (task_id t) \<in> set ?ids) (tasks db)) \<noteq> length ?ids"
    using length_filter_ids[OF pk, of "set ?ids"] by simp
qed

theorem bulk_update_duplicate_ids_rejected_witness:
  "distinct (map task_id (tasks sample_db))
   \<and> \<not> distinct (bu_task_ids (no_bulk_update [1, 1]))
   \<and> set (bu_task_ids (no_bulk_update [1, 1]))
        \<subseteq> (\<lambda>t. sint (task_id t)) ` set (tasks sample_db)
   \<and> bulk_update_tasks ((2024, 6, 1), 0) sample_user (no_bulk_update [1, 1]) sample_db
       = (Inl (HTTPException 400 ''One or more tasks not found''), sample_db)"
proof -
  have h1: "distinct (map task_id (tasks sample_db))"
    by (simp add: sample_db_def sample_task_def)
  have h2: "\<not> distinct (bu_task_ids (no_bulk_update [1, 1]))"
    by (simp add: no_bulk_update_def)
  have h3: "set (bu_task_ids (no_bulk_update [1, 1]))
      \<subseteq> (\<lambda>t. sint (task_id t)) ` set (tasks sample_db)"
    by (simp add: no_bulk_update_def sample_db_def sample_task_def)
  show ?thesis
    using h1 h2 h3 bulk_update_duplicate_ids_rejected[OF h1 h2 h3] by simp
qed

text \<open>
  Claim C2, as stated, fails: with one unknown id among five known ones the batch is
  refused with status 400, which is not the 404 of \<open>NotFound\<close>.
\<close>

theorem bulk_update_missing_id_status_400:
  "fst (bulk_update_tasks ((2024, 6, 1), 0) sample_user
          (no_bulk_update [1, 2, 3, 4, 5, 99]) sample_db)
     = Inl (HTTPException 400 ''One or more tasks not found'')
   \<and> \<not> NotFound (HTTPException 400 ''One or more tasks not found'')"
  by (simp add: bulk_update_tasks_def no_bulk_update_def sample_db_def sample_task_def
      NotFound_def int64_def)

text \<open>
  Claim C2, amended. If an id of \<open>task_ids\<close> names no task, the bulk update fails and the
  store is the one before the request: no task of the batch is changed in any field. The
  failure is status 400 with the detail \<open>One or more tasks not found\<close> when every id of
  \<open>task_ids\<close> is within the signed 64-bit range of the store's integers; otherwise it is
  the \<open>OverflowError\<close> that the driver raises when the query binds the ids.
\<close>

theorem bulk_update_missing_id_rejected:
  assumes pk: "distinct (map task_id (tasks db))"
    and i: "i \<in> set (bu_task_ids upd)"
    and missing: "get_task_row db i = None"
  shows "bulk_update_tasks now u upd db
           = (Inl (if list_all int64 (bu_task_ids upd)
                   then HTTPException 400 ''One or more tasks not found''
                   else OverflowError), db)"
proof (cases "list_all int64 (bu_task_ids upd)")
  case False
  moreover have "bu_task_ids upd \<noteq> []" using i by auto
  ultimately show ?thesis by (simp add: bulk_update_unbound_id)
next
  case True
  let ?ids = "bu_task_ids upd"
  have "bulk_update_tasks now u upd db
      = (Inl (HTTPException 400 ''One or more tasks not found''), db)"
  proof (rule bulk_update_length_mismatch)
    show "?ids \<noteq> []" using i by auto
    show "list_all int64 ?ids" by (rule True)
    have "i \<notin> (\<lambda>t. sint (task_id t)) ` set (tasks db)"
      using missing by (auto simp: get_task_row_def find_None_iff)
    then have "(\<lambda>t. sint (task_id t)) ` set (tasks db) \<inter> set ?ids \<subset> set ?ids"
      using i by auto
    then have "card ((\<lambda>t. sint (task_id t)) ` set (tasks db) \<inter> set ?ids) < card (set ?ids)"
      by (intro psubset_card_mono) auto
    moreover have "card (set ?ids) \<le> length ?ids"
      by (rule card_length)
    ultimately show "length (filter (\<lambda>t. sint (task_id t) \<in> set ?ids) (tasks db)) \<noteq> length ?ids"
      using length_filter_ids[OF pk, of "set ?ids"] by simp
  qed
  with True show ?thesis by simp
qed

theorem bulk_update_missing_id_rejected_witness:
  "distinct (map task_id (tasks sample_db))
   \<and> 99 \<in> set (bu_task_ids (no_bulk_update [1, 2, 3, 4, 5, 99]))
   \<and> get_task_row sample_db 99 = None
   \<and> bulk_update_tasks ((2024, 6, 1), 0) sample_user
        (no_bulk_update [1, 2, 3, 4, 5, 99]) sample_db
       = (Inl (HTTPException 400 ''One or more tasks not found''), sample_db)
   \<and> 2 ^ 63 \<in> set (bu_task_ids (no_bulk_update [1, 2 ^ 63]))
   \<and> get_task_row sample_db (2 ^ 63) = None
   \<and> bulk_update_tasks ((2024, 6, 1), 0) sample_user (no_bulk_update [1, 2 ^ 63]) sample_db
       = (Inl OverflowError, sample_db)"
proof -
  have h1: "distinct (map task_id (tasks sample_db))"
    by (simp add: sample_db_def sample_task_def)
  have h2: "99 \<in> set (bu_task_ids (no_bulk_update [1, 2, 3, 4, 5, 99]))"
    by (simp add: no_bulk_update_def)
  have h3: "get_task_row sample_db 99 = None"
    by (simp add: get_task_row_def sample_db_def sample_task_def)
  have h4: "2 ^ 63 \<in> set (bu_task_ids (no_bulk_update [1, 2 ^ 63]))"
    by (simp add: no_bulk_update_def)
  have h5: "get_task_row sample_db (2 ^ 63) = None"
    by (simp add: get_task_row_def sample_db_def sample_task_def)
  have b1: "list_all int64 (bu_task_ids (no_bulk_update [1, 2, 3, 4, 5, 99]))"
    by (simp add: no_bulk_update_def int64_def)
  have b2: "\<not> list_all int64 (bu_task_ids (no_bulk_update [1, 2 ^ 63]))"
    by (simp add: no_bulk_update_def int64_def)
  show ?thesis
    using h1 h2 h3 h4 h5 b1 b2
      bulk_update_missing_id_rejected[OF h1 h2 h3, of "((2024, 6, 1), 0)" sample_user]
      bulk_update_missing_id_rejected[OF h1 h4 h5, of "((2024, 6, 1), 0)" sample_user]
    by simp
qed

section \<open>Bulk update: assignees\<close>

text \<open>
  Claim C9. The claim wants a bulk update whose \<open>assignee_ids\<close> names an unknown user to
  fail with \<open>InvalidAssignee\<close> and to replace no assignee set, as the single update does.
  The bulk loop has no such check: with the unknown user 99 the request succeeds and the
  assignee sets of tasks 1 and 2 are replaced by the empty set, while \<open>update_task\<close> on
  the same \<open>assignee_ids\<close> raises \<open>InvalidAssignee\<close> and leaves the store unchanged.
\<close>

theorem bulk_update_unknown_assignee_succeeds:
  "fst (bulk_update_tasks ((2024, 6, 1), 0) sample_user
          ((no_bulk_update [1, 2])\<lparr>bu_assignee_ids := Some (Some [99])\<rparr>) sample_db)
     = Inr (2, [1, 2])
   \<and> map assignees (tasks (snd (bulk_update_tasks ((2024, 6, 1), 0) sample_user
          ((no_bulk_update [1, 2])\<lparr>bu_assignee_ids := Some (Some [99])\<rparr>) sample_db)))
     = [[], [], [1], [1], [1]]
   \<and> map assignees (tasks sample_db) = [[1], [1], [1], [1], [1]]
   \<and> update_task ((2024, 6, 1), 0) sample_user 1
        (no_update\<lparr>tu_assignee_ids := Some (Some [99])\<rparr>) sample_db
     = (Inl InvalidAssignee, sample_db)"
  by (simp add: bulk_update_tasks_def bulk_update_one_def bulk_status_def bulk_priority_def
      bulk_assignees_def bulk_tags_def put_task_def flush_task_def flush_collection_def
      load_collection_def refresh_def users_in_def
      log_task_history_def update_task_def TaskUpdate_valid_def get_task_row_def
      upd_title_def upd_description_def upd_status_def upd_priority_def upd_due_date_def
      upd_assignees_def InvalidAssignee_def int64_def sample_defs)

section \<open>Dependencies: the order of the checks\<close>

lemma get_task_row_int64: "get_task_row db i \<noteq> None \<Longrightarrow> int64 i"
  using int64_sint by (auto simp: get_task_row_def find_None_iff)

lemma get_task_row_log [simp]:
  "get_task_row (log_task_history db tid uid act fld old new) i = get_task_row db i"
  by (simp add: get_task_row_def log_task_history_def)

lemma create_task_dependency_success:
  assumes "create_task_dependency u tid b db = (Inr d, db')"
  shows "get_task_row db' b = get_task_row db b \<and> get_task_row db' tid = get_task_row db tid
    \<and> get_task_row db b \<noteq> None \<and> get_task_row db tid \<noteq> None \<and> b \<noteq> tid
    \<and> int64 b \<and> int64 tid
    \<and> task_dependencies db' = task_dependencies db @ [d]
    \<and> sint (blocking_task_id d) = b \<and> sint (blocked_task_id d) = tid"
  using assms
  by (auto simp: create_task_dependency_def Let_def get_task_row_def log_task_history_def
      sint_word_of_int64 split: if_splits)

text \<open>
  Claim C3, as stated, fails: a dependency of a task on itself does not always fail with
  \<open>SelfDependency\<close>. When the task does not exist, the existence check comes first and the
  request fails with status 404.
\<close>

theorem self_dependency_of_unknown_task_is_404:
  "create_task_dependency sample_user 99 99 sample_db
     = (Inl (HTTPException 404 ''One or both tasks not found''), sample_db)
   \<and> HTTPException 404 ''One or both tasks not found'' \<noteq> SelfDependency"
  by (simp add: create_task_dependency_def get_task_row_def sample_db_def sample_task_def
      SelfDependency_def int64_def)

text \<open>
  Claim C3, amended. For ids within the signed 64-bit range of the store's integers (any
  other id makes the queries for the two tasks raise the driver's \<open>OverflowError\<close>),
  \<open>create_task_dependency\<close> checks, in this order and with a distinct error for each:
  both tasks exist (status 404, \<open>NotFound\<close>); the blocking and the blocked task differ
  (\<open>SelfDependency\<close>); no edge with the same ordered pair exists
  (\<open>DuplicateDependency\<close>); otherwise the edge is created. So a dependency of an existing
  task on itself fails with \<open>SelfDependency\<close>, and after a creation that succeeded the same
  request fails with \<open>DuplicateDependency\<close>. A failed request leaves the store unchanged.
\<close>

theorem create_task_dependency_preconditions:
  "(\<not> int64 b \<or> \<not> int64 tid \<longrightarrow>
      create_task_dependency u tid b db = (Inl OverflowError, db))
   \<and> (int64 b \<and> int64 tid \<and> (get_task_row db b = None \<or> get_task_row db tid = None) \<longrightarrow>
      create_task_dependency u tid b db
        = (Inl (HTTPException 404 ''One or both tasks not found''), db))
   \<and> (get_task_row db b \<noteq> None \<and> get_task_row db tid \<noteq> None \<and> b = tid \<longrightarrow>
      create_task_dependency u tid b db = (Inl SelfDependency, db))
   \<and> (get_task_row db b \<noteq> None \<and> get_task_row db tid \<noteq> None \<and> b \<noteq> tid
        \<and> list_ex (\<lambda>d. sint (blocking_task_id d) = b \<and> sint (blocked_task_id d) = tid)
             (task_dependencies db)
      \<longrightarrow> create_task_dependency u tid b db = (Inl DuplicateDependency, db))
   \<and> (get_task_row db b \<noteq> None \<and> get_task_row db tid \<noteq> None \<and> b \<noteq> tid
        \<and> \<not> list_ex (\<lambda>d. sint (blocking_task_id d) = b \<and> sint (blocked_task_id d) = tid)
               (task_dependencies db)
      \<longrightarrow> (\<exists>d db'. create_task_dependency u tid b db = (Inr d, db')
             \<and> sint (blocking_task_id d) = b \<and> sint (blocked_task_id d) = tid
             \<and> task_dependencies db' = task_dependencies db @ [d]))
   \<and> (\<forall>d db'. create_task_dependency u tid b db = (Inr d, db') \<longrightarrow>
        create_task_dependency u tid b db' = (Inl DuplicateDependency, db'))
   \<and> NotFound (HTTPException 404 ''One or both tasks not found'')
   \<and> \<not> NotFound SelfDependency \<and> \<not> NotFound DuplicateDependency
   \<and> SelfDependency \<noteq> DuplicateDependency"
proof (intro conjI allI impI)
  assume "\<not> int64 b \<or> \<not> int64 tid"
  then show "create_task_dependency u tid b db = (Inl OverflowError, db)"
    by (auto simp: create_task_dependency_def)
next
  assume "int64 b \<and> int64 tid \<and> (get_task_row db b = None \<or> get_task_row db tid = None)"
  then show "create_task_dependency u tid b db
      = (Inl (HTTPException 404 ''One or both tasks not found''), db)"
    by (auto simp: create_task_dependency_def)
next
  assume a: "get_task_row db b \<noteq> None \<and> get_task_row db tid \<noteq> None \<and> b = tid"
  then have "int64 b" "int64 tid" using get_task_row_int64 by blast+
  with a show "create_task_dependency u tid b db = (Inl SelfDependency, db)"
    by (auto simp: create_task_dependency_def SelfDependency_def)
next
  assume a: "get_task_row db b \<noteq> None \<and> get_task_row db tid \<noteq> None \<and> b \<noteq> tid
        \<and> list_ex (\<lambda>d. sint (blocking_task_id d) = b \<and> sint (blocked_task_id d) = tid)
             (task_dependencies db)"
  then have "int64 b" "int64 tid" using get_task_row_int64 by blast+
  with a show "create_task_dependency u tid b db = (Inl DuplicateDependency, db)"
    by (auto simp: create_task_dependency_def DuplicateDependency_def find_None_iff
        list_ex_iff)
next
  assume a: "get_task_row db b \<noteq> None \<and> get_task_row db tid \<noteq> None \<and> b \<noteq> tid
        \<and> \<not> list_ex (\<lambda>d. sint (blocking_task_id d) = b \<and> sint (blocked_task_id d) = tid)
               (task_dependencies db)"
  then have "int64 b" "int64 tid" using get_task_row_int64 by blast+
  with a obtain d db' where ok: "create_task_dependency u tid b db = (Inr d, db')"
    by (auto simp: create_task_dependency_def Let_def find_None_iff list_ex_iff)
  with create_task_dependency_success[OF ok]
  show "\<exists>d db'. create_task_dependency u tid b db = (Inr d, db')
             \<and> sint (blocking_task_id d) = b \<and> sint (blocked_task_id d) = tid
             \<and> task_dependencies db' = task_dependencies db @ [d]"
    by simp
next
  fix d db'
  assume ok: "create_task_dependency u tid b db = (Inr d, db')"
  note s = create_task_dependency_success[OF ok]
  from s have "find (\<lambda>d. sint (blocking_task_id d) = b \<and> sint (blocked_task_id d) = tid)
      (task_dependencies db') \<noteq> None"
    by (auto simp: find_None_iff)
  with s show "create_task_dependency u tid b db' = (Inl DuplicateDependency, db')"
    by (simp add: create_task_dependency_def DuplicateDependency_def)
next
  show "NotFound (HTTPException 404 ''One or both tasks not found'')"
    by (simp add: NotFound_def)
  show "\<not> NotFound SelfDependency" by (simp add: NotFound_def SelfDependency_def)
  show "\<not> NotFound DuplicateDependency" by (simp add: NotFound_def DuplicateDependency_def)
  show "SelfDependency \<noteq> DuplicateDependency"
    by (simp add: SelfDependency_def DuplicateDependency_def)
qed

theorem create_task_dependency_preconditions_witness:
  "create_task_dependency sample_user 2 (2 ^ 63) sample_db = (Inl OverflowError, sample_db)
   \<and> create_task_dependency sample_user 2 99 sample_db
     = (Inl (HTTPException 404 ''One or both tasks not found''), sample_db)
   \<and> create_task_dependency sample_user 1 1 sample_db = (Inl SelfDependency, sample_db)
   \<and> (\<exists>d db'. create_task_dependency sample_user 2 1 sample_db = (Inr d, db')
        \<and> sint (blocking_task_id d) = 1 \<and> sint (blocked_task_id d) = 2
        \<and> create_task_dependency sample_user 2 1 db' = (Inl DuplicateDependency, db'))"
proof -
  have r: "get_task_row sample_db 1 \<noteq> None" "get_task_row sample_db 2 \<noteq> None"
    "get_task_row sample_db 99 = None" "int64 99" "int64 2" "\<not> int64 (2 ^ 63)"
    by (simp_all add: get_task_row_def sample_db_def sample_task_def int64_def)
  have e: "\<not> list_ex (\<lambda>d. sint (blocking_task_id d) = 1 \<and> sint (blocked_task_id d) = 2)
      (task_dependencies sample_db)"
    by (simp add: sample_db_def)
  note t0 = create_task_dependency_preconditions[of "2 ^ 63" 2 sample_user sample_db]
  note t1 = create_task_dependency_preconditions[of 99 2 sample_user sample_db]
  note t2 = create_task_dependency_preconditions[of 1 1 sample_user sample_db]
  note t3 = create_task_dependency_preconditions[of 1 2 sample_user sample_db]
  have z: "create_task_dependency sample_user 2 (2 ^ 63) sample_db
      = (Inl OverflowError, sample_db)"
    using t0 r by blast
  have a: "create_task_dependency sample_user 2 99 sample_db
     = (Inl (HTTPException 404 ''One or both tasks not found''), sample_db)"
    using t1 r by blast
  have b: "create_task_dependency sample_user 1 1 sample_db = (Inl SelfDependency, sample_db)"
    using t2 r by blast
  have ne: "(1::int) \<noteq> 2" by simp
  from t3 r e ne obtain d db' where
    c: "create_task_dependency sample_user 2 1 sample_db = (Inr d, db')"
      "sint (blocking_task_id d) = 1" "sint (blocked_task_id d) = 2"
    by blast
  with t3 have "create_task_dependency sample_user 2 1 db' = (Inl DuplicateDependency, db')"
    by blast
  with z a b c show ?thesis by blast
qed

section \<open>The filter: subtasks and parent\<close>

lemmas filter_defs = filter_tasks_def TaskFilter_validate_def validate_parent_task_id_def
  conditions_def when_list_def when_given_def filter_binds_def paginate_def int64_def
  subtask_count_def refresh_def load_collection_def

text \<open>
  Claim C7. The claim wants \<open>has_subtasks = true\<close> to return the tasks whose id is some
  other task's parent. The subquery of the source selects \<open>Task.id\<close> of the rows whose
  parent is set, so the filter returns the tasks that are subtasks: in the sample store
  task 1 is the only task with a subtask, and the filter returns task 2, its subtask.
\<close>

theorem has_subtasks_true_returns_the_subtask:
  "map_sum id (map (task_id \<circ> fst))
     (filter_tasks sample_db (2024, 6, 1) (no_filter\<lparr>tf_has_subtasks := Some True\<rparr>) 0 100)
     = Inr [2]
   \<and> map task_id (filter (\<lambda>t. 0 < subtask_count sample_db t) (tasks sample_db)) = [1]"
  by (simp add: filter_defs sample_defs)

text \<open>
  With unique task keys, \<open>has_subtasks = true\<close> alone selects the tasks that have a
  parent, and \<open>has_subtasks = false\<close> alone those that have none.
\<close>

lemma has_subtasks_selects_by_parent:
  assumes "distinct (map task_id (tasks db))"
  shows "filter_tasks db today (no_filter\<lparr>tf_has_subtasks := Some b\<rparr>) skip limit
     = (if int64 skip \<and> int64 limit
        then Inr (map (\<lambda>t. (refresh t, subtask_count db t))
               (paginate skip limit
                  (filter (\<lambda>t. if b then parent_task_id t \<noteq> None else parent_task_id t = None)
                     (tasks db))))
        else Inl OverflowError)"
proof -
  have same: "filter (\<lambda>t. if b
        then task_id t \<in> set (map task_id (filter (\<lambda>r. parent_task_id r \<noteq> None) (tasks db)))
        else parent_task_id t = None) (tasks db)
      = filter (\<lambda>t. if b then parent_task_id t \<noteq> None else parent_task_id t = None)
          (tasks db)"
  proof (rule filter_cong[OF refl])
    fix t assume t: "t \<in> set (tasks db)"
    have uniq: "\<And>r. r \<in> set (tasks db) \<Longrightarrow> task_id r = task_id t \<Longrightarrow> r = t"
      using assms t by (meson distinct_map inj_onD)
    have "(task_id t \<in> set (map task_id (filter (\<lambda>r. parent_task_id r \<noteq> None) (tasks db))))
        = (parent_task_id t \<noteq> None)"
    proof
      assume "task_id t \<in> set (map task_id (filter (\<lambda>r. parent_task_id r \<noteq> None) (tasks db)))"
      then obtain r where "r \<in> set (tasks db)" "parent_task_id r \<noteq> None"
        "task_id r = task_id t"
        by auto
      with uniq show "parent_task_id t \<noteq> None" by blast
    next
      assume "parent_task_id t \<noteq> None"
      with t show "task_id t \<in> set (map task_id
          (filter (\<lambda>r. parent_task_id r \<noteq> None) (tasks db)))"
        by force
    qed
    then show "(if b
        then task_id t \<in> set (map task_id (filter (\<lambda>r. parent_task_id r \<noteq> None) (tasks db)))
        else parent_task_id t = None)
      = (if b then parent_task_id t \<noteq> None else parent_task_id t = None)"
      by simp
  qed
  have "filter_tasks db today (no_filter\<lparr>tf_has_subtasks := Some b\<rparr>) skip limit
     = (if int64 skip \<and> int64 limit
        then Inr (map (\<lambda>t. (refresh t, subtask_count db t))
         (paginate skip limit
            (filter (\<lambda>t. if b
        then task_id t \<in> set (map task_id (filter (\<lambda>r. parent_task_id r \<noteq> None) (tasks db)))
        else parent_task_id t = None) (tasks db))))
        else Inl OverflowError)"
    by (simp add: filter_tasks_def TaskFilter_validate_def validate_parent_task_id_def
        conditions_def when_list_def when_given_def filter_binds_def no_filter_def
        del: set_map set_filter)
  then show ?thesis by (simp only: same)
qed

text \<open>
  Claim C8, as stated, fails: \<open>parent_task_id = 0\<close> does not return the tasks without a
  parent. The validator turns 0 into \<open>None\<close>, and the filter then adds no condition on the
  parent: in the sample store all five tasks are returned, task 2 with its parent 1
  among them.
\<close>

theorem parent_zero_returns_every_task:
  "map_sum id (map (task_id \<circ> fst))
     (filter_tasks sample_db (2024, 6, 1) (no_filter\<lparr>tf_parent_task_id := Some 0\<rparr>) 0 100)
     = Inr [1, 2, 3, 4, 5]
   \<and> map task_id (filter (\<lambda>t. parent_task_id t = None) (tasks sample_db)) = [1, 3, 4, 5]"
  by (simp add: filter_defs sample_defs)

text \<open>
  Claim C8, amended. When the parent-task dimension is supplied with a value other than
  0, its condition is the exact match of the parent reference with that value, and alone
  it returns exactly the tasks whose parent reference is that value (a value outside the
  signed 64-bit range of the store's integers cannot be bound: the query raises
  \<open>OverflowError\<close>). The value 0 is treated as the dimension not being supplied: it
  puts no condition on the parent.
\<close>

theorem parent_filter:
  "filter_tasks db today (f\<lparr>tf_parent_task_id := Some 0\<rparr>) skip limit
     = filter_tasks db today (f\<lparr>tf_parent_task_id := None\<rparr>) skip limit
   \<and> (p \<noteq> 0 \<longrightarrow>
        conditions db today (f\<lparr>tf_parent_task_id := Some p\<rparr>)
          = conditions db today (f\<lparr>tf_parent_task_id := None\<rparr>)
            @ [\<lambda>t. map_option sint (parent_task_id t) = Some p])
   \<and> (p \<noteq> 0 \<longrightarrow>
        filter_tasks db today (no_filter\<lparr>tf_parent_task_id := Some p\<rparr>) skip limit
          = (if int64 p \<and> int64 skip \<and> int64 limit
             then Inr (map (\<lambda>t. (refresh t, subtask_count db t))
                    (paginate skip limit
                       (filter (\<lambda>t. map_option sint (parent_task_id t) = Some p) (tasks db))))
             else Inl OverflowError))"
  by (simp add: filter_tasks_def TaskFilter_validate_def validate_parent_task_id_def
      conditions_def when_list_def when_given_def filter_binds_def no_filter_def)

theorem parent_filter_witness:
  "filter_tasks sample_db (2024, 6, 1) (no_filter\<lparr>tf_parent_task_id := Some 1\<rparr>) 0 100
     = Inr [(sample_task 2 ''child'' (Some 1), 0)]
   \<and> filter_tasks sample_db (2024, 6, 1) (no_filter\<lparr>tf_parent_task_id := Some 0\<rparr>) 0 100
     = filter_tasks sample_db (2024, 6, 1) (no_filter\<lparr>tf_parent_task_id := None\<rparr>) 0 100"
proof -
  have "(1::int) \<noteq> 0" by simp
  with parent_filter[of sample_db "(2024, 6, 1)" no_filter 0 100 1]
  show ?thesis
    by (simp add: subtask_count_def paginate_def int64_def refresh_def load_collection_def
        sample_db_def sample_task_def)
qed

section \<open>Single update: the completion time\<close>

lemma tasks_log [simp]:
  "tasks (log_task_history db tid uid act fld old new) = tasks db"
  by (simp add: log_task_history_def)

lemma tasks_get_or_create_tag [simp]: "tasks (snd (get_or_create_tag db n)) = tasks db"
  by (simp add: get_or_create_tag_def Let_def split: option.splits)

lemma tasks_append_tags [simp]: "tasks (snd (append_tags db acc ns)) = tasks db"
proof (induction ns arbitrary: db acc)
  case Nil
  show ?case by simp
next
  case (Cons n ns)
  obtain tag db1 where g: "get_or_create_tag db n = (tag, db1)"
    by (cases "get_or_create_tag db n")
  have "tasks db1 = tasks db"
    using tasks_get_or_create_tag[of db n] g by simp
  with Cons.IH[of db1 "acc @ [tag_id tag]"] g show ?case by simp
qed

lemma find_map_preserved:
  assumes "\<And>x. P (g x) = P x"
  shows "find P (map g xs) = map_option g (find P xs)"
  using assms by (induction xs) auto

lemma flush_task_columns:
  assumes "flush_task row obj = Some new"
  shows "task_id new = task_id obj \<and> completed_at new = completed_at obj
    \<and> status new = status obj"
  using assms by (auto simp: flush_task_def split: option.splits)

lemma put_task_columns:
  assumes "put_task row obj db = Some (new, db')"
  shows "task_id new = task_id obj \<and> completed_at new = completed_at obj
    \<and> status new = status obj"
  using assms flush_task_columns[of row obj new]
  by (auto simp: put_task_def split: option.splits)

lemma get_task_row_put_task:
  assumes "put_task row obj db = Some (new, db')"
  shows "get_task_row db' i
     = map_option (\<lambda>r. if task_id r = task_id obj then new else r) (get_task_row db i)"
proof -
  have id: "task_id new = task_id obj"
    using put_task_columns[OF assms] by simp
  have db': "db' = db\<lparr>tasks := map (\<lambda>r. if task_id r = task_id obj then new else r)
      (tasks db)\<rparr>"
    using assms by (auto simp: put_task_def split: option.splits)
  show ?thesis
    unfolding get_task_row_def db'
    by (simp add: find_map_preserved id)
qed

lemma get_task_row_id: "get_task_row db i = Some t \<Longrightarrow> sint (task_id t) = i"
  by (auto simp: get_task_row_def find_Some_iff)

lemma keeps_trans: "keeps a b \<Longrightarrow> keeps b c \<Longrightarrow> keeps a c"
  by (simp add: keeps_def)

lemma keeps_title: "keeps s (upd_title uid fld s)"
  by (cases s) (simp add: keeps_def upd_title_def split: option.splits)

lemma keeps_description: "keeps s (upd_description uid fld s)"
  by (cases s) (simp add: keeps_def upd_description_def split: option.splits)

lemma keeps_priority: "keeps s (upd_priority uid fld s)"
  by (cases s) (simp add: keeps_def upd_priority_def split: option.splits)

lemma keeps_due_date: "keeps s (upd_due_date uid fld s)"
  by (cases s) (simp add: keeps_def upd_due_date_def split: option.splits)

lemma keeps_status_unset: "keeps s (upd_status now uid None s)"
  by (cases s) (simp add: keeps_def upd_status_def)

lemma keeps_assignees: "upd_assignees uid fld s = Inr s' \<Longrightarrow> keeps s s'"
  by (cases s) (auto simp: keeps_def upd_assignees_def Let_def split: option.splits if_splits)

lemma keeps_tags: "keeps s (upd_tags uid fld s)"
proof (cases s)
  case (fields task db bad)
  show ?thesis
  proof (cases fld)
    case None
    with fields show ?thesis by (simp add: keeps_def upd_tags_def)
  next
    case (Some v)
    show ?thesis
    proof (cases v)
      case None
      with Some fields show ?thesis by (simp add: keeps_def upd_tags_def)
    next
      case (Some names)
      obtain tgs db1 where a: "append_tags db [] names = (tgs, db1)"
        by (cases "append_tags db [] names")
      have "tasks db1 = tasks db"
        using tasks_append_tags[of db "[]" names] a by simp
      with a Some \<open>fld = Some v\<close> fields show ?thesis
        by (simp add: keeps_def upd_tags_def)
    qed
  qed
qed

lemma status_to_completed:
  assumes "status (fst s) \<noteq> COMPLETED"
  shows "completed_at (fst (upd_status now uid (Some (Some COMPLETED)) s)) = Some now
       \<and> status (fst (upd_status now uid (Some (Some COMPLETED)) s)) = COMPLETED
       \<and> task_id (fst (upd_status now uid (Some (Some COMPLETED)) s)) = task_id (fst s)
       \<and> tasks (fst (snd (upd_status now uid (Some (Some COMPLETED)) s))) = tasks (fst (snd s))"
  using assms by (cases s) (simp add: upd_status_def Let_def)

lemma status_to_other:
  assumes "v \<noteq> COMPLETED"
  shows "completed_at (fst (upd_status now uid (Some (Some v)) s)) = completed_at (fst s)
       \<and> status (fst (upd_status now uid (Some (Some v)) s)) = v
       \<and> task_id (fst (upd_status now uid (Some (Some v)) s)) = task_id (fst s)
       \<and> tasks (fst (snd (upd_status now uid (Some (Some v)) s))) = tasks (fst (snd s))"
  using assms by (cases s) (simp add: upd_status_def Let_def)

text \<open>The shape of a successful update.\<close>

lemma update_task_Inr:
  assumes "update_task now u tid upd db = (Inr (t', n), db')"
  obtains row s6 task2 db2 new where
    "get_task_row db tid = Some row"
    "upd_assignees (user_id u) (tu_assignee_ids upd)
       (upd_due_date (user_id u) (tu_due_date upd)
         (upd_priority (user_id u) (tu_priority upd)
           (upd_status now (user_id u) (tu_status upd)
             (upd_description (user_id u) (tu_description upd)
               (upd_title (user_id u) (tu_title upd) (refresh row, db, False)))))) = Inr s6"
    "upd_tags (user_id u) (tu_tag_names upd) s6 = (task2, db2, False)"
    "put_task row task2 db2 = Some (new, db')" "t' = refresh new"
  using assms
  by (auto simp: update_task_def Let_def split: if_splits option.splits sum.splits prod.splits)

lemma update_task_Inl: "update_task now u tid upd db = (Inl e, db') \<Longrightarrow> db' = db"
  by (auto simp: update_task_def Let_def split: if_splits option.splits sum.splits prod.splits)

lemma completed_at_refresh [simp]: "completed_at (refresh t) = completed_at t"
  by (simp add: refresh_def)

lemma status_refresh [simp]: "status (refresh t) = status t"
  by (simp add: refresh_def)

lemma task_id_refresh [simp]: "task_id (refresh t) = task_id t"
  by (simp add: refresh_def)

text \<open>
  A successful update whose steps, from the status step on, keep what \<open>keeps\<close> names:
  the returned task is the stored row as loaded, with the completion time and the status
  of the object after the status step.
\<close>

lemma update_task_result:
  assumes row: "get_task_row db tid = Some row"
    and k: "keeps s3 (task2, db2, False)"
    and id: "task_id (fst s3) = task_id row" and tk: "tasks (fst (snd s3)) = tasks db"
    and put: "put_task row task2 db2 = Some (new, db')"
  shows "completed_at (refresh new) = completed_at (fst s3)
    \<and> status (refresh new) = status (fst s3)
    \<and> map_option refresh (get_task_row db' tid) = Some (refresh new)"
proof -
  note c = put_task_columns[OF put]
  have i2: "task_id task2 = task_id row" and t2: "tasks db2 = tasks db"
    using k id tk by (simp_all add: keeps_def)
  have "get_task_row db2 tid = Some row"
    using row t2 by (simp add: get_task_row_def)
  then have "get_task_row db' tid = Some new"
    using i2 by (simp add: get_task_row_put_task[OF put])
  then show ?thesis
    using c k by (simp add: keeps_def)
qed

lemma update_to_completed:
  assumes row: "get_task_row db tid = Some t" and st: "status t \<noteq> COMPLETED"
    and fld: "tu_status upd = Some (Some COMPLETED)"
    and ok: "update_task now u tid upd db = (Inr (t', n), db')"
  shows "completed_at t' = Some now \<and> status t' = COMPLETED
    \<and> map_option refresh (get_task_row db' tid) = Some t'"
proof -
  from ok obtain row s6 task2 db2 new where
    r: "get_task_row db tid = Some row"
    and a: "upd_assignees (user_id u) (tu_assignee_ids upd)
       (upd_due_date (user_id u) (tu_due_date upd)
         (upd_priority (user_id u) (tu_priority upd)
           (upd_status now (user_id u) (tu_status upd)
             (upd_description (user_id u) (tu_description upd)
               (upd_title (user_id u) (tu_title upd) (refresh row, db, False)))))) = Inr s6"
    and g: "upd_tags (user_id u) (tu_tag_names upd) s6 = (task2, db2, False)"
    and put: "put_task row task2 db2 = Some (new, db')" and t': "t' = refresh new"
    by (rule update_task_Inr)
  from r row have [simp]: "row = t" by simp
  let ?s0 = "(refresh t, db, False)"
  let ?s2 = "upd_description (user_id u) (tu_description upd)
               (upd_title (user_id u) (tu_title upd) ?s0)"
  let ?s3 = "upd_status now (user_id u) (Some (Some COMPLETED)) ?s2"
  have k2: "keeps ?s0 ?s2"
    by (rule keeps_trans[OF keeps_title keeps_description])
  have "status (fst ?s2) \<noteq> COMPLETED" using k2 st by (simp add: keeps_def)
  note c = status_to_completed[OF this, of now "user_id u"]
  have k6: "keeps ?s3 s6"
    using a unfolding fld
    by (intro keeps_trans[OF keeps_priority keeps_trans[OF keeps_due_date keeps_assignees]])
      simp
  have k7: "keeps s6 (task2, db2, False)"
    using keeps_tags[of s6 "user_id u" "tu_tag_names upd"] g by simp
  have k: "keeps ?s3 (task2, db2, False)" by (rule keeps_trans[OF k6 k7])
  have id: "task_id (fst ?s3) = task_id t" and tk: "tasks (fst (snd ?s3)) = tasks db"
    using c k2 by (simp_all add: keeps_def)
  from update_task_result[OF row k id tk] put c show ?thesis
    by (simp add: t')
qed

lemma update_from_completed:
  assumes row: "get_task_row db tid = Some t"
    and fld: "tu_status upd = Some (Some v)" and v: "v \<noteq> COMPLETED"
    and ok: "update_task now u tid upd db = (Inr (t', n), db')"
  shows "completed_at t' = completed_at t \<and> status t' = v
    \<and> map_option refresh (get_task_row db' tid) = Some t'"
proof -
  from ok obtain row s6 task2 db2 new where
    r: "get_task_row db tid = Some row"
    and a: "upd_assignees (user_id u) (tu_assignee_ids upd)
       (upd_due_date (user_id u) (tu_due_date upd)
         (upd_priority (user_id u) (tu_priority upd)
           (upd_status now (user_id u) (tu_status upd)
             (upd_description (user_id u) (tu_description upd)
               (upd_title (user_id u) (tu_title upd) (refresh row, db, False)))))) = Inr s6"
    and g: "upd_tags (user_id u) (tu_tag_names upd) s6 = (task2, db2, False)"
    and put: "put_task row task2 db2 = Some (new, db')" and t': "t' = refresh new"
    by (rule update_task_Inr)
  from r row have [simp]: "row = t" by simp
  let ?s0 = "(refresh t, db, False)"
  let ?s2 = "upd_description (user_id u) (tu_description upd)
               (upd_title (user_id u) (tu_title upd) ?s0)"
  let ?s3 = "upd_status now (user_id u) (Some (Some v)) ?s2"
  have k2: "keeps ?s0 ?s2"
    by (rule keeps_trans[OF keeps_title keeps_description])
  note c = status_to_other[OF v, of now "user_id u" ?s2]
  have k6: "keeps ?s3 s6"
    using a unfolding fld
    by (intro keeps_trans[OF keeps_priority keeps_trans[OF keeps_due_date keeps_assignees]])
      simp
  have k7: "keeps s6 (task2, db2, False)"
    using keeps_tags[of s6 "user_id u" "tu_tag_names upd"] g by simp
  have k: "keeps ?s3 (task2, db2, False)" by (rule keeps_trans[OF k6 k7])
  have id: "task_id (fst ?s3) = task_id t" and tk: "tasks (fst (snd ?s3)) = tasks db"
    using c k2 by (simp_all add: keeps_def)
  from update_task_result[OF row k id tk] put c k2 show ?thesis
    by (simp add: t' keeps_def)
qed

lemma update_without_status:
  assumes fld: "tu_status upd = None"
  shows "map_option completed_at (get_task_row (snd (update_task now u tid upd db)) i)
           = map_option completed_at (get_task_row db i)"
proof (cases "update_task now u tid upd db")
  case (Pair res db')
  show ?thesis
  proof (cases res)
    case (Inl e)
    with Pair have "db' = db" by (auto dest: update_task_Inl)
    with Pair show ?thesis by simp
  next
    case (Inr r)
    obtain t' n where r: "r = (t', n)" by (cases r)
    with Pair Inr have ok: "update_task now u tid upd db = (Inr (t', n), db')" by simp
    from ok obtain row s6 task2 db2 new where
      row: "get_task_row db tid = Some row"
      and a: "upd_assignees (user_id u) (tu_assignee_ids upd)
         (upd_due_date (user_id u) (tu_due_date upd)
           (upd_priority (user_id u) (tu_priority upd)
             (upd_status now (user_id u) (tu_status upd)
               (upd_description (user_id u) (tu_description upd)
                 (upd_title (user_id u) (tu_title upd) (refresh row, db, False)))))) = Inr s6"
      and g: "upd_tags (user_id u) (tu_tag_names upd) s6 = (task2, db2, False)"
      and put: "put_task row task2 db2 = Some (new, db')" and t': "t' = refresh new"
      by (rule update_task_Inr)
    let ?s0 = "(refresh row, db, False)"
    have k6: "keeps ?s0 s6"
      using a unfolding fld
      by (intro keeps_trans[OF keeps_title keeps_trans[OF keeps_description
            keeps_trans[OF keeps_status_unset keeps_trans[OF keeps_priority
            keeps_trans[OF keeps_due_date keeps_assignees]]]]]) simp
    have k7: "keeps s6 (task2, db2, False)"
      using keeps_tags[of s6 "user_id u" "tu_tag_names upd"] g by simp
    have k: "keeps ?s0 (task2, db2, False)" by (rule keeps_trans[OF k6 k7])
    have id: "task_id task2 = task_id row" and tk: "tasks db2 = tasks db"
      and ca: "completed_at task2 = completed_at row"
      using k by (simp_all add: keeps_def)
    note c = put_task_columns[OF put]
    have same: "get_task_row db2 i = get_task_row db i"
      using tk by (simp add: get_task_row_def)
    show ?thesis
    proof (cases "get_task_row db i")
      case None
      with same Pair show ?thesis by (simp add: get_task_row_put_task[OF put])
    next
      case (Some x)
      show ?thesis
      proof (cases "task_id x = task_id row")
        case True
        then have "i = tid"
          using get_task_row_id[OF Some] get_task_row_id[OF row] by simp
        with Some row have "x = row" by simp
        with Some same Pair id ca c show ?thesis
          by (simp add: get_task_row_put_task[OF put])
      next
        case False
        with Some same Pair id show ?thesis
          by (simp add: get_task_row_put_task[OF put])
      qed
    qed
  qed
qed

text \<open>
  Claim C5. An update that changes the status of a task to \<open>completed\<close> sets
  \<open>completed_at\<close> to the time of the update, a non-null timestamp. An update that moves
  a completed task to another status keeps its \<open>completed_at\<close>. An update that does not
  set \<open>status\<close> leaves the \<open>completed_at\<close> of every task as it was, so null where it was
  null. The first two are about a request that succeeds, with the returned task being the
  stored one as it loads; the third holds whether the request succeeds or not.
\<close>

theorem update_task_completed_at:
  "(get_task_row db tid = Some t \<and> status t \<noteq> COMPLETED
      \<and> tu_status upd = Some (Some COMPLETED)
      \<and> update_task now u tid upd db = (Inr (t', n), db')
     \<longrightarrow> completed_at t' = Some now \<and> status t' = COMPLETED
         \<and> map_option refresh (get_task_row db' tid) = Some t')
   \<and> (get_task_row db tid = Some t \<and> status t = COMPLETED
      \<and> tu_status upd = Some (Some v) \<and> v \<noteq> COMPLETED
      \<and> update_task now u tid upd db = (Inr (t', n), db')
     \<longrightarrow> completed_at t' = completed_at t \<and> status t' = v
         \<and> map_option refresh (get_task_row db' tid) = Some t')
   \<and> (tu_status upd = None
     \<longrightarrow> map_option completed_at (get_task_row (snd (update_task now u tid upd db)) i)
           = map_option completed_at (get_task_row db i))"
  using update_to_completed[of db tid t upd now u t' n db']
    update_from_completed[of db tid t upd v now u t' n db']
    update_without_status[of upd now u tid db i]
  by blast

theorem update_task_completed_at_witness:
  "(\<exists>t' n db'. update_task ((2024, 6, 1), 0) sample_user 1
        (no_update\<lparr>tu_status := Some (Some COMPLETED)\<rparr>) sample_db = (Inr (t', n), db')
      \<and> completed_at t' = Some ((2024, 6, 1), 0)
      \<and> map_option refresh (get_task_row db' 1) = Some t')
   \<and> (\<exists>t' n db'. update_task ((2024, 6, 1), 0) sample_user 1
        (no_update\<lparr>tu_status := Some (Some TODO)\<rparr>) completed_db = (Inr (t', n), db')
      \<and> completed_at t' = Some ((2024, 5, 1), 7) \<and> status t' = TODO)
   \<and> map_option completed_at (get_task_row (snd (update_task ((2024, 6, 1), 0) sample_user 1
        (no_update\<lparr>tu_title := Some (Some ''renamed'')\<rparr>) sample_db)) 1) = Some None
   \<and> map_option title (get_task_row (snd (update_task ((2024, 6, 1), 0) sample_user 1
        (no_update\<lparr>tu_title := Some (Some ''renamed'')\<rparr>) sample_db)) 1) = Some ''renamed''"
proof -
  let ?now = "((2024, 6, 1), 0) :: datetime"
  let ?u1 = "no_update\<lparr>tu_status := Some (Some COMPLETED)\<rparr>"
  let ?u2 = "no_update\<lparr>tu_status := Some (Some TODO)\<rparr>"
  let ?u3 = "no_update\<lparr>tu_title := Some (Some ''renamed'')\<rparr>"
  obtain r1 d1 where e1: "update_task ?now sample_user 1 ?u1 sample_db = (Inr r1, d1)"
    by (simp add: upd_defs int64_def sample_db_def sample_task_def sample_user_def
        no_update_def)
  obtain t1 n1 where r1: "r1 = (t1, n1)" by (cases r1)
  have a1: "get_task_row sample_db 1 = Some (sample_task 1 ''abc'' None)"
    "status (sample_task 1 ''abc'' None) \<noteq> COMPLETED"
    "tu_status ?u1 = Some (Some COMPLETED)"
    by (simp_all add: get_task_row_def sample_db_def sample_task_def)
  obtain r2 d2 where e2: "update_task ?now sample_user 1 ?u2 completed_db = (Inr r2, d2)"
    by (simp add: upd_defs int64_def completed_db_def sample_db_def sample_task_def
        sample_user_def no_update_def)
  obtain t2 n2 where r2: "r2 = (t2, n2)" by (cases r2)
  have a2: "get_task_row completed_db 1 = Some ((sample_task 1 ''abc'' None)
        \<lparr>status := COMPLETED, completed_at := Some ((2024, 5, 1), 7)\<rparr>)"
    "tu_status ?u2 = Some (Some TODO)" "TODO \<noteq> COMPLETED"
    by (simp_all add: get_task_row_def completed_db_def sample_db_def sample_task_def)
  have a3: "tu_status ?u3 = None" by (simp add: no_update_def)
  have c1: "completed_at t1 = Some ?now \<and> map_option refresh (get_task_row d1 1) = Some t1"
    using update_task_completed_at[of sample_db 1 "sample_task 1 ''abc'' None" ?u1 ?now
        sample_user t1 n1 d1] a1 e1 r1 by simp
  have c2: "completed_at t2 = Some ((2024, 5, 1), 7) \<and> status t2 = TODO"
    using update_task_completed_at[of completed_db 1 "(sample_task 1 ''abc'' None)
        \<lparr>status := COMPLETED, completed_at := Some ((2024, 5, 1), 7)\<rparr>" ?u2 ?now
        sample_user t2 n2 d2 TODO] a2 e2 r2 by simp
  have c3: "map_option completed_at (get_task_row (snd (update_task ?now sample_user 1 ?u3
        sample_db)) 1) = Some None"
    using update_task_completed_at[of sample_db 1 _ ?u3 ?now sample_user _ _ _ _ 1] a3 a1(1)
    by (simp add: sample_task_def)
  have c4: "map_option title (get_task_row (snd (update_task ?now sample_user 1 ?u3
        sample_db)) 1) = Some ''renamed''"
    by (simp add: upd_defs str_if_def int64_def sample_db_def sample_task_def sample_user_def
        no_update_def)
  show ?thesis using e1 r1 c1 e2 r2 c2 c3 c4 by simp
qed

section \<open>Tag resolution\<close>







lemma load_collection_twice [simp]: "load_collection [i, i] = [i]"
  by (simp add: load_collection_def)




section \<open>Creation: the task and its history record\<close>

text \<open>
  Claim C4. The claim wants the task and its \<open>created\<close> history record written in one
  atomic transaction. \<open>create_task\<close> commits the task first and writes the history
  record in a second transaction: when the store fails at the second commit the request
  fails and the new task 6 stays in the store with no history record. When nothing fails,
  task 6 has exactly one history record, of action \<open>created\<close>, and no history record
  references a task that is not in the store.
\<close>

theorem create_task_second_commit_fails:
  "fst (create_task (Some AtSecondCommit) ((2024, 6, 1), 0) sample_user (sample_create [])
          sample_db) = Inl OperationalError
   \<and> map task_id (tasks (snd (create_task (Some AtSecondCommit) ((2024, 6, 1), 0)
          sample_user (sample_create []) sample_db))) = [1, 2, 3, 4, 5, 6]
   \<and> filter (\<lambda>h. history_task_id h = 6) (task_history (snd (create_task
          (Some AtSecondCommit) ((2024, 6, 1), 0) sample_user (sample_create [])
          sample_db))) = []
   \<and> map_sum id (task_id \<circ> fst) (fst (create_task None ((2024, 6, 1), 0) sample_user
          (sample_create []) sample_db)) = Inr 6
   \<and> map (\<lambda>h. (history_task_id h, action h)) (task_history (snd (create_task None
          ((2024, 6, 1), 0) sample_user (sample_create []) sample_db)))
       = [(6, ''created'')]
   \<and> create_task (Some AtFirstCommit) ((2024, 6, 1), 0) sample_user (sample_create [])
          sample_db = (Inl OperationalError, sample_db)"
  by (simp add: create_task_def TaskCreate_validate_def validate_parent_task_id_def
      users_in_def next_id_def refresh_def load_collection_def log_task_history_def
      subtask_count_def int64_def sample_create_def sample_db_def sample_task_def
      sample_user_def Let_def)

end
